theory Spec2Isabelle
  imports Complex_Main "HOL-Library.Multiset" "HOL-Library.Sublist"
begin

section \<open>Python strings and the regular expressions of the schema inferencer\<close>

text \<open>
  Column names are modelled as ASCII strings. \<open>str.lower\<close>, \<open>str.title\<close> and the
  word class of \<open>re\<close> are modelled on the ASCII letters, digits and the underscore.
\<close>

definition upper_letters :: string where
  "upper_letters = ''ABCDEFGHIJKLMNOPQRSTUVWXYZ''"

definition lower_letters :: string where
  "lower_letters = ''abcdefghijklmnopqrstuvwxyz''"

definition digit_chars :: string where
  "digit_chars = ''0123456789''"

definition lower_char :: "char \<Rightarrow> char" where
  "lower_char c = (case map_of (zip upper_letters lower_letters) c of Some d \<Rightarrow> d | None \<Rightarrow> c)"

definition upper_char :: "char \<Rightarrow> char" where
  "upper_char c = (case map_of (zip lower_letters upper_letters) c of Some d \<Rightarrow> d | None \<Rightarrow> c)"

definition is_alpha :: "char \<Rightarrow> bool" where
  "is_alpha c = (c \<in> set (upper_letters @ lower_letters))"

definition is_word_char :: "char \<Rightarrow> bool" where
  "is_word_char c = (c \<in> set (upper_letters @ lower_letters @ digit_chars @ ''_''))"

definition lower :: "string \<Rightarrow> string" where
  "lower s = map lower_char s"

text \<open>\<open>s.replace("_", " ")\<close>.\<close>

definition replace_underscores :: "string \<Rightarrow> string" where
  "replace_underscores s = map (\<lambda>c. if c = CHR ''_'' then CHR '' '' else c) s"

text \<open>
  \<open>s.title()\<close>: a letter that follows a letter is lower-cased, any other letter is
  upper-cased, every other character is kept and ends the word.
\<close>

fun title_from :: "bool \<Rightarrow> string \<Rightarrow> string" where
  "title_from prev [] = []"
| "title_from prev (c # cs) =
     (if is_alpha c then (if prev then lower_char c else upper_char c) # title_from True cs
      else c # title_from False cs)"

definition title :: "string \<Rightarrow> string" where
  "title s = title_from False s"

text \<open>The \<open>{col.replace("_", " ").title()}\<close> of the descriptor names.\<close>

definition pretty :: "string \<Rightarrow> string" where
  "pretty col = title (replace_underscores col)"

text \<open>\<open>strip_prefix p s\<close> is the rest of \<open>s\<close> after the literal \<open>p\<close>, when \<open>s\<close> starts with it.\<close>

fun strip_prefix :: "string \<Rightarrow> string \<Rightarrow> string option" where
  "strip_prefix [] s = Some s"
| "strip_prefix (p # ps) [] = None"
| "strip_prefix (p # ps) (c # cs) = (if p = c then strip_prefix ps cs else None)"

text \<open>
  \<open>re.search\<close> tries every position of the string from left to right; \<open>search_from m prev s\<close>
  does so for a matcher \<open>m\<close> that sees the character before the position and the text
  from the position on.
\<close>

fun search_from :: "(char option \<Rightarrow> string \<Rightarrow> bool) \<Rightarrow> char option \<Rightarrow> string \<Rightarrow> bool" where
  "search_from m prev [] = m prev []"
| "search_from m prev (c # cs) = (m prev (c # cs) \<or> search_from m (Some c) cs)"

text \<open>
  The pattern forms that occur in the three pattern tables: a literal (\<open>date\<close>), a
  literal before \<open>$\<close> (\<open>key$\<close>), a literal between \<open>^\<close> and \<open>$\<close> (\<open>^id$\<close>) and a
  literal between two \<open>\b\<close> (\<open>\bid\b\<close>).
\<close>

datatype pattern = Lit string | LitEnd string | Whole string | WordLit string

text \<open>
  Without \<open>re.MULTILINE\<close>, \<open>$\<close> matches at the end of the string and just before a
  newline that ends the string.
\<close>

definition at_end :: "string \<Rightarrow> bool" where
  "at_end rest = (rest = [] \<or> rest = [CHR 0x0A])"

definition word_boundary :: "char option \<Rightarrow> string \<Rightarrow> bool" where
  "word_boundary prev rest =
     ((case prev of None \<Rightarrow> False | Some c \<Rightarrow> is_word_char c)
        \<noteq> (case rest of [] \<Rightarrow> False | c # _ \<Rightarrow> is_word_char c))"

fun match_at :: "pattern \<Rightarrow> char option \<Rightarrow> string \<Rightarrow> bool" where
  "match_at (Lit p) prev s = (strip_prefix p s \<noteq> None)"
| "match_at (LitEnd p) prev s = (case strip_prefix p s of None \<Rightarrow> False | Some rest \<Rightarrow> at_end rest)"
| "match_at (Whole p) prev s =
     (prev = None \<and> (case strip_prefix p s of None \<Rightarrow> False | Some rest \<Rightarrow> at_end rest))"
| "match_at (WordLit p) prev s =
     (word_boundary prev s \<and>
      (case strip_prefix p s of None \<Rightarrow> False
       | Some rest \<Rightarrow> word_boundary (if p = [] then prev else Some (last p)) rest))"

definition re_search :: "pattern \<Rightarrow> string \<Rightarrow> bool" where
  "re_search p s = search_from (match_at p) None s"

text \<open>
  \<open>detect_column_pattern\<close> of \<open>utils.py\<close>: the name is lower-cased and searched for each
  pattern in turn. The patterns are lower-case, so \<open>re.IGNORECASE\<close> adds nothing on the
  lower-cased name.
\<close>

definition detect_column_pattern :: "string \<Rightarrow> pattern list \<Rightarrow> bool" where
  "detect_column_pattern column_name patterns =
     (let column_lower = lower column_name in list_ex (\<lambda>p. re_search p column_lower) patterns)"

definition ID_PATTERNS :: "pattern list" where
  "ID_PATTERNS =
     [WordLit ''id'', Whole ''id'', LitEnd ''_id'', Lit ''id_'', LitEnd ''key'', LitEnd ''pk'',
      Lit ''primary_key'', Lit ''uuid'', Lit ''serial'', Lit ''index'']"

definition DATETIME_PATTERNS :: "pattern list" where
  "DATETIME_PATTERNS =
     [Lit ''date'', Lit ''time'', Lit ''timestamp'', Lit ''created'', Lit ''updated'',
      Lit ''modified'', Lit ''when'', LitEnd ''dt'', LitEnd ''_at'', Lit ''day'', Lit ''month'',
      Lit ''year'']"

definition CATEGORICAL_PATTERNS :: "pattern list" where
  "CATEGORICAL_PATTERNS =
     [Lit ''category'', Lit ''type'', Lit ''status'', Lit ''state'', Lit ''country'',
      Lit ''region'', Lit ''city'', Lit ''segment'', Lit ''group'', Lit ''class'', Lit ''kind'',
      Lit ''label'', Lit ''tag'', Lit ''flag'']"

text \<open>\<open>p in s\<close> on strings.\<close>

definition contains :: "string \<Rightarrow> string \<Rightarrow> bool" where
  "contains p s = re_search (Lit p) s"


section \<open>Tables\<close>

text \<open>
  The storage types (\<open>dtype\<close>) a pandas column can have, as far as the code tells them
  apart: the four signed NumPy integer types that \<open>infer_column_type\<close> lists, the other
  numeric types, and the non-numeric ones.
\<close>

datatype dtype =
  Int8 | Int16 | Int32 | Int64 | UInt | Float | Bool | Datetime64 | Object | StringDtype | Category

text \<open>
  \<open>pandas.api.types\<close>: \<open>is_numeric_dtype\<close> holds of the integer, floating and boolean
  types; \<open>is_string_dtype\<close> of \<open>object\<close> and of the string extension type.
\<close>

definition is_numeric_dtype :: "dtype \<Rightarrow> bool" where
  "is_numeric_dtype d = (d \<in> set [Int8, Int16, Int32, Int64, UInt, Float, Bool])"

definition is_datetime64_any_dtype :: "dtype \<Rightarrow> bool" where
  "is_datetime64_any_dtype d = (d = Datetime64)"

definition is_string_dtype :: "dtype \<Rightarrow> bool" where
  "is_string_dtype d = (d = Object \<or> d = StringDtype)"

definition is_bool_dtype :: "dtype \<Rightarrow> bool" where
  "is_bool_dtype d = (d = Bool)"

text \<open>
  A point in time: year, month, day and the nanoseconds since midnight. \<open>.dt.year\<close> reads
  the first component, \<open>.dt.date\<close> the first three.
\<close>

datatype timestamp = Timestamp (ts_year: int) (ts_month: nat) (ts_day: nat) (ts_nanos: nat)

definition ts_date :: "timestamp \<Rightarrow> int \<times> nat \<times> nat" where
  "ts_date t = (ts_year t, ts_month t, ts_day t)"

text \<open>
  A cell holds a number (integers, floats and booleans, compared by value as Python
  does; floats are idealised as reals), a string or a timestamp. A null cell (\<open>NaN\<close>,
  \<open>None\<close>, \<open>NaT\<close>) is \<open>None\<close>.
\<close>

datatype cell = NumV real | StrV string | TimeV timestamp

record series =
  sname :: string
  dtype :: dtype
  cells :: "cell option list"

text \<open>A table: \<open>len(df)\<close> and the columns in order.\<close>

record dataframe =
  nrows :: nat
  columns :: "series list"

text \<open>
  In a well-formed table every column has \<open>len(df)\<close> cells, and a column of native
  datetime storage holds timestamps only.
\<close>

definition is_time :: "cell option \<Rightarrow> bool" where
  "is_time v = (case v of Some (TimeV t) \<Rightarrow> True | Some _ \<Rightarrow> False | None \<Rightarrow> True)"

definition wf_series :: "nat \<Rightarrow> series \<Rightarrow> bool" where
  "wf_series n s = (length (cells s) = n \<and> (dtype s \<noteq> Datetime64 \<or> list_all is_time (cells s)))"

definition wf_dataframe :: "dataframe \<Rightarrow> bool" where
  "wf_dataframe df = list_all (wf_series (nrows df)) (columns df)"

datatype error =
  KeyError string | ZeroDivisionError | NotASeries string | TypeError string | RuleError string

text \<open>
  \<open>df[c]\<close>. A label that is not a column raises \<open>KeyError\<close>. A label that several
  columns share selects a \<open>DataFrame\<close>, on which each of the \<open>Series\<close> operations the code
  goes on to apply raises (\<open>.dtype\<close> does not exist, the truth value of the \<open>Series\<close> that
  \<open>.sum() != 0\<close>, \<open>.nunique() == 2\<close> and \<open>outlier_pct > 5\<close> yield is ambiguous,
  \<open>to_datetime\<close> cannot assemble dates from it); the model raises at the selection.
\<close>

definition getitem :: "dataframe \<Rightarrow> string \<Rightarrow> error + series" where
  "getitem df c =
     (case filter (\<lambda>s. sname s = c) (columns df) of
        [] \<Rightarrow> Inl (KeyError c)
      | [s] \<Rightarrow> Inr s
      | _ \<Rightarrow> Inl (NotASeries c))"

fun dropna :: "'a option list \<Rightarrow> 'a list" where
  "dropna [] = []"
| "dropna (None # xs) = dropna xs"
| "dropna (Some v # xs) = v # dropna xs"

text \<open>\<open>Series.unique()\<close> keeps the values in the order of their first appearance.\<close>

fun unique_from :: "'a list \<Rightarrow> 'a list \<Rightarrow> 'a list" where
  "unique_from seen [] = []"
| "unique_from seen (x # xs) =
     (if x \<in> set seen then unique_from seen xs else x # unique_from (x # seen) xs)"

definition unique :: "'a list \<Rightarrow> 'a list" where
  "unique xs = unique_from [] xs"

text \<open>\<open>Series.nunique()\<close> counts the distinct non-null values.\<close>

definition nunique :: "'a option list \<Rightarrow> nat" where
  "nunique xs = length (unique (dropna xs))"

text \<open>
  What the code takes from Python, pandas, NumPy and SciPy and this development
  leaves open. Each call is a function of the storage type and of all the values it is
  given, and the calls that can raise return \<open>None\<close> when they do:
  \<^item> \<open>pd.to_datetime\<close> with \<open>errors='raise'\<close> and with \<open>errors='coerce'\<close> (which turns
    a value it cannot convert into \<open>NaT\<close>, here \<open>None\<close> in the list; both reject some
    storage types, such as \<open>bool\<close>, whatever the values);
  \<^item> \<open>str(v)\<close> for a cell that is not a string;
  \<^item> the sum of a list of \<open>float64\<close> numbers or Python objects, and the \<open>float64\<close>
    addition, subtraction and multiplication;
  \<^item> \<open>Series.quantile\<close> and \<open>scipy.stats.zscore\<close> on the non-null values (an inner
    \<open>None\<close> is \<open>NaN\<close>);
  \<^item> the \<open>:.1f\<close> format and the text of an exception.
\<close>

record pylib =
  datetime_convert :: "dtype \<Rightarrow> cell list \<Rightarrow> timestamp list option"
  datetime_coerce :: "dtype \<Rightarrow> cell list \<Rightarrow> timestamp option list option"
  py_str :: "cell option \<Rightarrow> string"
  float_sum :: "real list \<Rightarrow> real"
  float_add :: "real \<Rightarrow> real \<Rightarrow> real"
  float_sub :: "real \<Rightarrow> real \<Rightarrow> real"
  float_mul :: "real \<Rightarrow> real \<Rightarrow> real"
  quantile :: "dtype \<Rightarrow> real \<Rightarrow> cell list \<Rightarrow> real option option"
  zscore :: "dtype \<Rightarrow> cell list \<Rightarrow> real option list option"
  format_1f :: "real \<Rightarrow> string"
  exc_str :: "error \<Rightarrow> string"

text \<open>The timestamps of a list of cells that holds timestamps only.\<close>

fun timestamps_of :: "cell list \<Rightarrow> timestamp list option" where
  "timestamps_of [] = Some []"
| "timestamps_of (TimeV t # vs) =
     (case timestamps_of vs of None \<Rightarrow> None | Some ts \<Rightarrow> Some (t # ts))"
| "timestamps_of (v # vs) = None"

text \<open>
  \<open>pd.to_datetime(sample, errors='raise')\<close> and \<open>pd.to_datetime(sample, errors='coerce')\<close>
  for a sample taken from a column of storage type \<open>d\<close>. A sample of native datetime
  storage is returned as it is; any other sample is converted by the library, which
  may raise.
\<close>

definition native_timestamps :: "dtype \<Rightarrow> cell list \<Rightarrow> timestamp list option" where
  "native_timestamps d sample = (if d = Datetime64 then timestamps_of sample else None)"

definition to_datetime_raise :: "pylib \<Rightarrow> dtype \<Rightarrow> cell list \<Rightarrow> error + timestamp list" where
  "to_datetime_raise L d sample =
     (case native_timestamps d sample of
        Some ts \<Rightarrow> Inr ts
      | None \<Rightarrow> (case datetime_convert L d sample of
                   Some ts \<Rightarrow> Inr ts
                 | None \<Rightarrow> Inl (TypeError ''to_datetime'')))"

definition to_datetime_coerce ::
  "pylib \<Rightarrow> dtype \<Rightarrow> cell list \<Rightarrow> error + timestamp option list" where
  "to_datetime_coerce L d sample =
     (case native_timestamps d sample of
        Some ts \<Rightarrow> Inr (map Some ts)
      | None \<Rightarrow> (case datetime_coerce L d sample of
                   Some ts \<Rightarrow> Inr ts
                 | None \<Rightarrow> Inl (TypeError ''to_datetime'')))"

definition str_of :: "pylib \<Rightarrow> cell option \<Rightarrow> string" where
  "str_of L v = (case v of Some (StrV s) \<Rightarrow> s | _ \<Rightarrow> py_str L v)"

text \<open>The mean of a list of numbers; of no numbers it is \<open>NaN\<close>, here \<open>None\<close>.\<close>

definition mean :: "real list \<Rightarrow> real option" where
  "mean xs = (if xs = [] then None else Some (sum_list xs / real (length xs)))"

text \<open>Comparisons with \<open>NaN\<close> are false.\<close>

definition nan_less :: "real option \<Rightarrow> real \<Rightarrow> bool" where
  "nan_less a b = (case a of None \<Rightarrow> False | Some x \<Rightarrow> x < b)"

definition nan_greater :: "real option \<Rightarrow> real \<Rightarrow> bool" where
  "nan_greater a b = (case a of None \<Rightarrow> False | Some x \<Rightarrow> x > b)"

section \<open>Schema inference (\<open>schema_inference.py\<close>)\<close>

text \<open>
  The \<open>try\<close> block of the name-based datetime check: it succeeds when
  \<open>pd.to_datetime(df[column].dropna().head(100), errors='raise')\<close> returns; every
  exception is swallowed by the bare \<open>except\<close>.
\<close>

definition name_datetime_try :: "pylib \<Rightarrow> dataframe \<Rightarrow> string \<Rightarrow> bool" where
  "name_datetime_try L df column =
     (case getitem df column of
        Inl e \<Rightarrow> False
      | Inr s \<Rightarrow> (case to_datetime_raise L (dtype s) (take 100 (dropna (cells s))) of
                   Inl e \<Rightarrow> False | Inr ts \<Rightarrow> True))"

text \<open>The branch for \<open>object\<close> and string storage (lines 113 to 134).\<close>

definition classify_object :: "pylib \<Rightarrow> dataframe \<Rightarrow> string \<Rightarrow> series \<Rightarrow> string" where
  "classify_object L df column s =
     (let unique_ratio = real (nunique (cells s)) / real (max (nrows df) 1);
          avg_length = mean (map (\<lambda>v. real (length (str_of L v))) (cells s))
      in
        if unique_ratio < 0.5 \<and> nan_less avg_length 50
           \<and> (detect_column_pattern column CATEGORICAL_PATTERNS
                \<or> real (nunique (cells s)) < min 50 (real (nrows df) * 0.1))
        then ''categorical''
        else if nan_greater avg_length 100 then ''text''
        else if unique_ratio < 0.3 then ''categorical''
        else ''text'')"

text \<open>The checks on the storage type (lines 87 to 140).\<close>

definition classify_dtype :: "pylib \<Rightarrow> dataframe \<Rightarrow> string \<Rightarrow> series \<Rightarrow> error + string" where
  "classify_dtype L df column s =
     (if is_numeric_dtype (dtype s) then
        (if dtype s \<in> set [Int64, Int32, Int16, Int8] then
           (if nrows df = 0 then Inl ZeroDivisionError
            else if real (nunique (cells s)) / real (nrows df) > 0.95 then Inr ''id''
            else Inr ''numeric'')
         else Inr ''numeric'')
      else if is_datetime64_any_dtype (dtype s) then Inr ''datetime''
      else if dtype s = Object \<and> length (take 100 (dropna (cells s))) > 0
              \<and> (case to_datetime_raise L (dtype s) (take 100 (dropna (cells s))) of
                    Inl e \<Rightarrow> False | Inr ts \<Rightarrow> True)
      then Inr ''datetime''
      else if dtype s = Object \<or> is_string_dtype (dtype s) then Inr (classify_object L df column s)
      else if is_bool_dtype (dtype s) then Inr ''categorical''
      else Inr ''categorical'')"

definition infer_column_type :: "pylib \<Rightarrow> dataframe \<Rightarrow> string \<Rightarrow> error + string" where
  "infer_column_type L df column =
     (if detect_column_pattern column ID_PATTERNS then Inr ''id''
      else if detect_column_pattern column DATETIME_PATTERNS \<and> name_datetime_try L df column
      then Inr ''datetime''
      else (case getitem df column of
              Inl e \<Rightarrow> Inl e
            | Inr s \<Rightarrow> classify_dtype L df column s))"

record schema =
  id_columns :: "string list"
  datetime_columns :: "string list"
  categorical_columns :: "string list"
  numeric_columns :: "string list"
  text_columns :: "string list"
  raw_columns :: "string list"

text \<open>One pass of the loop body of \<open>infer_schema\<close>: the column is appended to one list.\<close>

definition add_column :: "schema \<Rightarrow> string \<Rightarrow> string \<Rightarrow> schema" where
  "add_column sch column col_type =
     (if col_type = ''id'' then sch\<lparr>id_columns := id_columns sch @ [column]\<rparr>
      else if col_type = ''datetime'' then sch\<lparr>datetime_columns := datetime_columns sch @ [column]\<rparr>
      else if col_type = ''categorical'' then sch\<lparr>categorical_columns := categorical_columns sch @ [column]\<rparr>
      else if col_type = ''numeric'' then sch\<lparr>numeric_columns := numeric_columns sch @ [column]\<rparr>
      else if col_type = ''text'' then sch\<lparr>text_columns := text_columns sch @ [column]\<rparr>
      else sch\<lparr>categorical_columns := categorical_columns sch @ [column]\<rparr>)"

fun infer_schema_loop :: "pylib \<Rightarrow> dataframe \<Rightarrow> string list \<Rightarrow> schema \<Rightarrow> error + schema" where
  "infer_schema_loop L df [] sch = Inr sch"
| "infer_schema_loop L df (column # rest) sch =
     (case infer_column_type L df column of
        Inl e \<Rightarrow> Inl e
      | Inr col_type \<Rightarrow> infer_schema_loop L df rest (add_column sch column col_type))"

definition infer_schema :: "pylib \<Rightarrow> dataframe \<Rightarrow> error + schema" where
  "infer_schema L df =
     infer_schema_loop L df (map sname (columns df))
       \<lparr>id_columns = [], datetime_columns = [], categorical_columns = [],
        numeric_columns = [], text_columns = [], raw_columns = map sname (columns df)\<rparr>"

section \<open>KPI descriptors and the rule families (\<open>kpi_rules.py\<close>)\<close>

text \<open>
  A descriptor is a dictionary. The keys every rule writes are fields; \<open>column\<close> is
  \<open>None\<close> where the rule stores Python's \<open>None\<close>; \<open>group_by\<close> and
  \<open>group_by_function\<close> are \<open>None\<close> where the rule writes no such key; the keys only
  some rules write (\<open>percentile\<close>, \<open>denominator\<close>, \<open>status_values\<close>, the computed
  numbers, \<open>insight\<close>) are listed in \<open>extras\<close> in the order the rule writes them.
\<close>

datatype pyval = S string | N real | Cells "cell list"

record kpi =
  name :: string
  description :: string
  logic :: string
  columns_used :: "string list"
  category :: string
  subcategory :: string
  difficulty :: string
  sql_function :: string
  group_by :: "string option"
  group_by_function :: "string option"
  column :: "string option"
  extras :: "(string \<times> pyval) list"

subsection \<open>\<open>generate_aggregation_kpis\<close>\<close>

definition aggregation_kpi :: "string \<Rightarrow> string \<Rightarrow> string \<Rightarrow> string \<Rightarrow> string \<Rightarrow> string \<Rightarrow> kpi" where
  "aggregation_kpi title_word description_words fn sub sqlfn col =
     \<lparr>name = title_word @ '' '' @ pretty col,
      description = description_words @ col @ '' across all records.'',
      logic = fn @ ''('' @ col @ '')'',
      columns_used = [col], category = ''aggregation'', subcategory = sub,
      difficulty = ''easy'', sql_function = sqlfn, group_by = None, group_by_function = None,
      column = Some col, extras = []\<rparr>"

definition numeric_aggregations :: "string \<Rightarrow> kpi list" where
  "numeric_aggregations col =
     [aggregation_kpi ''Total'' ''Sum of '' ''SUM'' ''sum'' ''SUM'' col,
      aggregation_kpi ''Average'' ''Average value of '' ''AVG'' ''average'' ''AVG'' col,
      aggregation_kpi ''Minimum'' ''Minimum value of '' ''MIN'' ''min'' ''MIN'' col,
      aggregation_kpi ''Maximum'' ''Maximum value of '' ''MAX'' ''max'' ''MAX'' col]"

definition count_distinct_kpi :: "string \<Rightarrow> kpi" where
  "count_distinct_kpi col =
     \<lparr>name = ''Total Count of '' @ pretty col,
      description = ''Total count of unique '' @ col @ ''.'',
      logic = ''COUNT(DISTINCT '' @ col @ '')'',
      columns_used = [col], category = ''aggregation'', subcategory = ''count_distinct'',
      difficulty = ''easy'', sql_function = ''COUNT_DISTINCT'', group_by = None,
      group_by_function = None, column = Some col, extras = []\<rparr>"

definition total_records_kpi :: kpi where
  "total_records_kpi =
     \<lparr>name = ''Total Records'',
      description = ''Total number of records in the dataset.'',
      logic = ''COUNT'' @ ''('' @ ''*'' @ '')'',
      columns_used = [], category = ''aggregation'', subcategory = ''count'',
      difficulty = ''easy'', sql_function = ''COUNT'', group_by = None,
      group_by_function = None, column = None, extras = []\<rparr>"

definition generate_aggregation_kpis :: "schema \<Rightarrow> dataframe \<Rightarrow> kpi list" where
  "generate_aggregation_kpis sch df =
     concat (map numeric_aggregations (numeric_columns sch))
     @ map count_distinct_kpi (id_columns sch)
     @ (if nrows df > 0 then [total_records_kpi] else [])"

subsection \<open>\<open>generate_time_series_kpis\<close>\<close>

text \<open>
  The \<open>try\<close> block of the granularity detection up to \<open>sample_dates.dropna()\<close>; an
  exception in it (the selection of a duplicated label, a storage type that
  \<open>pd.to_datetime\<close> rejects) reaches the bare \<open>except\<close>.
\<close>

definition sample_dates_of :: "pylib \<Rightarrow> dataframe \<Rightarrow> string \<Rightarrow> error + timestamp list" where
  "sample_dates_of L df datetime_col =
     (case getitem df datetime_col of
        Inl e \<Rightarrow> Inl e
      | Inr s \<Rightarrow> (case to_datetime_coerce L (dtype s) (take 100 (dropna (cells s))) of
                   Inl e \<Rightarrow> Inl e
                 | Inr sample_dates \<Rightarrow> Inr (dropna sample_dates)))"

definition detect_time_granularity :: "pylib \<Rightarrow> dataframe \<Rightarrow> string \<Rightarrow> string" where
  "detect_time_granularity L df datetime_col =
     (let is_year_column = contains ''year'' (lower datetime_col) in
      if datetime_col \<in> set (map sname (columns df)) then
        (case sample_dates_of L df datetime_col of
           Inl e \<Rightarrow> if is_year_column then ''year'' else ''day''
         | Inr sample_dates \<Rightarrow>
             if length sample_dates > 0 then
               (let unique_years = length (unique (map ts_year sample_dates));
                    unique_days = length (unique (map ts_date sample_dates))
                in if is_year_column \<or> (unique_years \<le> 2 \<and> unique_days \<le> 2) then ''year''
                   else if real unique_days < real (length sample_dates) * 0.1 then ''month''
                   else ''day'')
             else ''day'')
      else ''day'')"

definition time_series_kpi ::
  "string \<Rightarrow> string \<Rightarrow> string \<Rightarrow> string \<Rightarrow> string \<Rightarrow> string \<Rightarrow> string \<Rightarrow> kpi" where
  "time_series_kpi period description_end grouping sub gbf num_col datetime_col =
     \<lparr>name = pretty num_col @ '' per '' @ period,
      description = ''Total '' @ num_col @ '' aggregated by '' @ description_end,
      logic = ''SUM('' @ num_col @ '') GROUP BY '' @ grouping,
      columns_used = [num_col, datetime_col], category = ''time_series'', subcategory = sub,
      difficulty = ''medium'', sql_function = ''SUM'', group_by = Some datetime_col,
      group_by_function = Some gbf, column = Some num_col, extras = []\<rparr>"

definition per_year_kpi :: "string \<Rightarrow> string \<Rightarrow> kpi" where
  "per_year_kpi num_col datetime_col =
     time_series_kpi ''Year'' ''year.'' (''YEAR('' @ datetime_col @ '')'') ''yearly'' ''YEAR''
       num_col datetime_col"

definition per_month_kpi :: "string \<Rightarrow> string \<Rightarrow> string \<Rightarrow> kpi" where
  "per_month_kpi description_end num_col datetime_col =
     time_series_kpi ''Month'' description_end
       (''YEAR('' @ datetime_col @ ''), MONTH('' @ datetime_col @ '')'') ''monthly'' ''YEAR_MONTH''
       num_col datetime_col"

definition per_day_kpi :: "string \<Rightarrow> string \<Rightarrow> kpi" where
  "per_day_kpi num_col datetime_col =
     time_series_kpi ''Day'' ''day.'' (''DATE('' @ datetime_col @ '')'') ''daily'' ''DATE''
       num_col datetime_col"

definition numeric_time_series :: "string \<Rightarrow> string \<Rightarrow> string \<Rightarrow> kpi list" where
  "numeric_time_series time_granularity datetime_col num_col =
     (if time_granularity = ''year'' then
        [per_year_kpi num_col datetime_col,
         per_month_kpi ''month (if month data available).'' num_col datetime_col]
      else if time_granularity = ''month'' then
        [per_month_kpi ''month.'' num_col datetime_col, per_year_kpi num_col datetime_col]
      else
        [per_day_kpi num_col datetime_col, per_month_kpi ''month.'' num_col datetime_col])"

definition new_records_kpi ::
  "string \<Rightarrow> string \<Rightarrow> string \<Rightarrow> string \<Rightarrow> string \<Rightarrow> string \<Rightarrow> string \<Rightarrow> kpi" where
  "new_records_kpi period period_lower grouping sub gbf id_col datetime_col =
     \<lparr>name = ''New '' @ pretty id_col @ '' per '' @ period,
      description = ''Count of new '' @ id_col @ '' per '' @ period_lower @ ''.'',
      logic = ''COUNT(DISTINCT '' @ id_col @ '') GROUP BY '' @ grouping,
      columns_used = [id_col, datetime_col], category = ''time_series'', subcategory = sub,
      difficulty = ''medium'', sql_function = ''COUNT_DISTINCT'', group_by = Some datetime_col,
      group_by_function = Some gbf, column = Some id_col, extras = []\<rparr>"

definition id_time_series :: "string \<Rightarrow> string \<Rightarrow> string \<Rightarrow> kpi" where
  "id_time_series time_granularity datetime_col id_col =
     (if time_granularity = ''year'' then
        new_records_kpi ''Year'' ''year'' (''YEAR('' @ datetime_col @ '')'') ''yearly'' ''YEAR''
          id_col datetime_col
      else if time_granularity = ''month'' then
        new_records_kpi ''Month'' ''month''
          (''YEAR('' @ datetime_col @ ''), MONTH('' @ datetime_col @ '')'') ''monthly''
          ''YEAR_MONTH'' id_col datetime_col
      else
        new_records_kpi ''Day'' ''day'' (''DATE('' @ datetime_col @ '')'') ''daily'' ''DATE''
          id_col datetime_col)"

definition generate_time_series_kpis :: "pylib \<Rightarrow> schema \<Rightarrow> dataframe \<Rightarrow> kpi list" where
  "generate_time_series_kpis L sch df =
     (case datetime_columns sch of
        [] \<Rightarrow> []
      | datetime_col # _ \<Rightarrow>
          (let time_granularity = detect_time_granularity L df datetime_col in
             concat (map (numeric_time_series time_granularity datetime_col) (numeric_columns sch))
             @ map (id_time_series time_granularity datetime_col) (take 1 (id_columns sch))))"

subsection \<open>\<open>generate_category_breakdown_kpis\<close>\<close>

definition by_category_kpi :: "string \<Rightarrow> string \<Rightarrow> string \<Rightarrow> string \<Rightarrow> string \<Rightarrow> string \<Rightarrow> kpi" where
  "by_category_kpi name_prefix description_word fn sub cat_col num_col =
     \<lparr>name = name_prefix @ pretty num_col @ '' by '' @ pretty cat_col,
      description = description_word @ '' '' @ num_col @ '' broken down by '' @ cat_col @ ''.'',
      logic = fn @ ''('' @ num_col @ '') GROUP BY '' @ cat_col,
      columns_used = [num_col, cat_col], category = ''category_breakdown'', subcategory = sub,
      difficulty = ''medium'', sql_function = fn, group_by = Some cat_col,
      group_by_function = None, column = Some num_col, extras = []\<rparr>"

definition count_by_category_kpi :: "string \<Rightarrow> kpi" where
  "count_by_category_kpi cat_col =
     \<lparr>name = ''Count by '' @ pretty cat_col,
      description = ''Number of records broken down by '' @ cat_col @ ''.'',
      logic = ''COUNT'' @ ''('' @ ''*'' @ '') GROUP BY '' @ cat_col,
      columns_used = [cat_col], category = ''category_breakdown'',
      subcategory = ''count_by_category'', difficulty = ''easy'', sql_function = ''COUNT'',
      group_by = Some cat_col, group_by_function = None, column = None, extras = []\<rparr>"

definition category_breakdown :: "string list \<Rightarrow> string \<Rightarrow> kpi list" where
  "category_breakdown numeric_cols cat_col =
     concat (map (\<lambda>num_col.
        [by_category_kpi [] ''Total'' ''SUM'' ''sum_by_category'' cat_col num_col,
         by_category_kpi ''Average '' ''Average'' ''AVG'' ''avg_by_category'' cat_col num_col])
        numeric_cols)
     @ [count_by_category_kpi cat_col]"

definition generate_category_breakdown_kpis :: "schema \<Rightarrow> dataframe \<Rightarrow> kpi list" where
  "generate_category_breakdown_kpis sch df =
     (if categorical_columns sch = [] then []
      else concat (map (category_breakdown (numeric_columns sch)) (categorical_columns sch)))"

subsection \<open>\<open>generate_conversion_kpis\<close>\<close>

definition status_patterns :: "string list" where
  "status_patterns = [''status'', ''state'', ''stage'', ''phase'', ''type'']"

definition distribution_kpi :: "string \<Rightarrow> kpi" where
  "distribution_kpi status_col =
     \<lparr>name = pretty status_col @ '' Distribution'',
      description = ''Distribution of records by '' @ status_col @ ''.'',
      logic = ''COUNT'' @ ''('' @ ''*'' @ '') GROUP BY '' @ status_col,
      columns_used = [status_col], category = ''conversion'', subcategory = ''distribution'',
      difficulty = ''easy'', sql_function = ''COUNT'', group_by = Some status_col,
      group_by_function = None, column = None, extras = []\<rparr>"

definition rate_kpi :: "pylib \<Rightarrow> string \<Rightarrow> cell list \<Rightarrow> kpi" where
  "rate_kpi L status_col vals =
     \<lparr>name = pretty status_col @ '' Rate'',
      description = ''Percentage of records with '' @ status_col @ '' = ''
                      @ str_of L (Some (hd vals)) @ ''.'',
      logic = ''COUNT(CASE WHEN '' @ status_col @ '' = '' @ [CHR 0x22] @ str_of L (Some (hd vals))
                @ [CHR 0x22] @ '' THEN 1 END) / COUNT'' @ ''('' @ ''*'' @ '') * 100'',
      columns_used = [status_col], category = ''conversion'', subcategory = ''rate'',
      difficulty = ''medium'', sql_function = ''RATE'', group_by = None,
      group_by_function = None, column = Some status_col,
      extras = [(''status_values'', Cells vals)]\<rparr>"

text \<open>
  The body of the loop over the status-like columns. \<open>values[0]\<close> is read only where
  \<open>len(values) == 2\<close>.
\<close>

definition conversion_for :: "pylib \<Rightarrow> dataframe \<Rightarrow> string \<Rightarrow> error + kpi list" where
  "conversion_for L df status_col =
     (case getitem df status_col of
        Inl e \<Rightarrow> Inl e
      | Inr s \<Rightarrow>
          Inr (distribution_kpi status_col
               # (if nunique (cells s) = 2 then
                    (let vals = unique (dropna (cells s)) in
                     if length vals = 2 then [rate_kpi L status_col vals] else [])
                  else [])))"

text \<open>A loop whose body may raise: the first exception ends it.\<close>

fun concat_results :: "(error + 'a list) list \<Rightarrow> error + 'a list" where
  "concat_results [] = Inr []"
| "concat_results (r # rs) =
     (case r of
        Inl e \<Rightarrow> Inl e
      | Inr xs \<Rightarrow> (case concat_results rs of Inl e \<Rightarrow> Inl e | Inr ys \<Rightarrow> Inr (xs @ ys)))"

definition generate_conversion_kpis :: "pylib \<Rightarrow> schema \<Rightarrow> dataframe \<Rightarrow> error + kpi list" where
  "generate_conversion_kpis L sch df =
     (let status_cols = filter (\<lambda>col. list_ex (\<lambda>pattern. contains pattern (lower col)) status_patterns)
                          (categorical_columns sch)
      in concat_results (map (conversion_for L df) status_cols))"

subsection \<open>\<open>generate_advanced_kpis\<close>\<close>

definition median_kpi :: "string \<Rightarrow> kpi" where
  "median_kpi col =
     \<lparr>name = ''Median '' @ pretty col,
      description = ''Median (50th percentile) value of '' @ col @ ''.'',
      logic = ''PERCENTILE_CONT(0.5) WITHIN GROUP (ORDER BY '' @ col @ '')'',
      columns_used = [col], category = ''statistical'', subcategory = ''percentile'',
      difficulty = ''medium'', sql_function = ''MEDIAN'', group_by = None,
      group_by_function = None, column = Some col, extras = [(''percentile'', N 50)]\<rparr>"

text \<open>
  \<open>percentile_kpi ''25'' ''0.25'' 25\<close> and \<open>percentile_kpi ''75'' ''0.75'' 75\<close> are the two
  passes of the loop over \<open>[25, 75]\<close>, with \<open>{percentile}\<close> and \<open>{percentile/100}\<close> as
  Python prints them.
\<close>

definition percentile_kpi :: "string \<Rightarrow> string \<Rightarrow> real \<Rightarrow> string \<Rightarrow> kpi" where
  "percentile_kpi shown fraction percentile col =
     \<lparr>name = shown @ ''th Percentile of '' @ pretty col,
      description = shown @ ''th percentile value of '' @ col @ ''.'',
      logic = ''PERCENTILE_CONT('' @ fraction @ '') WITHIN GROUP (ORDER BY '' @ col @ '')'',
      columns_used = [col], category = ''statistical'', subcategory = ''percentile'',
      difficulty = ''medium'', sql_function = ''PERCENTILE'', group_by = None,
      group_by_function = None, column = Some col, extras = [(''percentile'', N percentile)]\<rparr>"

definition percentile_kpis :: "string \<Rightarrow> kpi list" where
  "percentile_kpis col =
     [median_kpi col, percentile_kpi ''25'' ''0.25'' 25 col, percentile_kpi ''75'' ''0.75'' 75 col]"

text \<open>
  \<open>Series.sum()\<close> skips nulls. Integers and booleans are added in \<open>int64\<close>, unsigned
  integers in \<open>uint64\<close>, both with wrap-around; a cell of integer storage holds the
  integer \<open>\<lfloor>x\<rfloor>\<close>. Floats and Python objects are added by the library, with its
  rounding (an overflow to infinity is some result other than 0); a sum of zeros, and
  of no numbers, is 0. Strings with no null among them concatenate; any other content
  raises \<open>TypeError\<close>.
\<close>

fun numbers_of :: "cell list \<Rightarrow> real list option" where
  "numbers_of [] = Some []"
| "numbers_of (NumV x # vs) = (case numbers_of vs of None \<Rightarrow> None | Some xs \<Rightarrow> Some (x # xs))"
| "numbers_of (v # vs) = None"

fun strings_of :: "cell option list \<Rightarrow> string list option" where
  "strings_of [] = Some []"
| "strings_of (Some (StrV x) # vs) = (case strings_of vs of None \<Rightarrow> None | Some xs \<Rightarrow> Some (x # xs))"
| "strings_of (v # vs) = None"

definition wrap_int64 :: "int \<Rightarrow> int" where
  "wrap_int64 n = (n + 2 ^ 63) mod 2 ^ 64 - 2 ^ 63"

definition wrap_uint64 :: "int \<Rightarrow> int" where
  "wrap_uint64 n = n mod 2 ^ 64"

definition sum_numbers :: "pylib \<Rightarrow> dtype \<Rightarrow> real list \<Rightarrow> real" where
  "sum_numbers L d xs =
     (if d \<in> set [Int8, Int16, Int32, Int64, Bool]
      then of_int (wrap_int64 (sum_list (map floor xs)))
      else if d = UInt then of_int (wrap_uint64 (sum_list (map floor xs)))
      else if list_all (\<lambda>x. x = 0) xs then 0
      else float_sum L xs)"

definition series_sum :: "pylib \<Rightarrow> series \<Rightarrow> error + cell" where
  "series_sum L s =
     (case numbers_of (dropna (cells s)) of
        Some xs \<Rightarrow> Inr (NumV (sum_numbers L (dtype s) xs))
      | None \<Rightarrow> (case strings_of (cells s) of
                   Some ss \<Rightarrow> Inr (StrV (concat ss))
                 | None \<Rightarrow> Inl (TypeError ''sum'')))"

text \<open>\<open>df[col1].sum() != 0\<close>.\<close>

definition sum_nonzero :: "pylib \<Rightarrow> dataframe \<Rightarrow> string \<Rightarrow> error + bool" where
  "sum_nonzero L df col1 =
     (case getitem df col1 of
        Inl e \<Rightarrow> Inl e
      | Inr s \<Rightarrow> (case series_sum L s of Inl e \<Rightarrow> Inl e | Inr v \<Rightarrow> Inr (v \<noteq> NumV 0)))"

definition ratio_kpi :: "string \<Rightarrow> string \<Rightarrow> kpi" where
  "ratio_kpi col1 col2 =
     \<lparr>name = pretty col2 @ '' to '' @ pretty col1 @ '' Ratio'',
      description = ''Ratio of '' @ col2 @ '' to '' @ col1 @ ''.'',
      logic = ''SUM('' @ col2 @ '') / SUM('' @ col1 @ '')'',
      columns_used = [col1, col2], category = ''ratio'', subcategory = ''numeric_ratio'',
      difficulty = ''medium'', sql_function = ''RATIO'', group_by = None,
      group_by_function = None, column = Some col2, extras = [(''denominator'', S col1)]\<rparr>"

text \<open>The inner loop \<open>for col2 in numeric_cols[i+1:]\<close> for one \<open>col1\<close>.\<close>

fun ratios_with :: "pylib \<Rightarrow> dataframe \<Rightarrow> string \<Rightarrow> string list \<Rightarrow> error + kpi list" where
  "ratios_with L df col1 [] = Inr []"
| "ratios_with L df col1 (col2 # rest) =
     (case sum_nonzero L df col1 of
        Inl e \<Rightarrow> Inl e
      | Inr nonzero \<Rightarrow>
          (case ratios_with L df col1 rest of
             Inl e \<Rightarrow> Inl e
           | Inr ks \<Rightarrow> Inr ((if nonzero then [ratio_kpi col1 col2] else []) @ ks)))"

text \<open>The outer loop \<open>for i, col1 in enumerate(numeric_cols)\<close>.\<close>

fun ratio_kpis :: "pylib \<Rightarrow> dataframe \<Rightarrow> string list \<Rightarrow> error + kpi list" where
  "ratio_kpis L df [] = Inr []"
| "ratio_kpis L df (col1 # rest) =
     (case ratios_with L df col1 rest of
        Inl e \<Rightarrow> Inl e
      | Inr ks \<Rightarrow> (case ratio_kpis L df rest of Inl e \<Rightarrow> Inl e | Inr ks' \<Rightarrow> Inr (ks @ ks')))"

definition growth_kpi :: "string \<Rightarrow> string \<Rightarrow> kpi" where
  "growth_kpi datetime_col num_col =
     \<lparr>name = pretty num_col @ '' Growth Rate'',
      description = ''Period-over-period growth rate of '' @ num_col @ ''.'',
      logic = ''(SUM('' @ num_col @ '') - LAG(SUM('' @ num_col @ ''))) / LAG(SUM('' @ num_col
                @ '')) * 100'',
      columns_used = [num_col, datetime_col], category = ''growth'', subcategory = ''pct_change'',
      difficulty = ''advanced'', sql_function = ''GROWTH_RATE'', group_by = None,
      group_by_function = None, column = Some num_col, extras = []\<rparr>"

definition generate_advanced_kpis :: "pylib \<Rightarrow> schema \<Rightarrow> dataframe \<Rightarrow> error + kpi list" where
  "generate_advanced_kpis L sch df =
     (let numeric_cols = numeric_columns sch; datetime_cols = datetime_columns sch in
      case (if length numeric_cols \<ge> 2 then ratio_kpis L df numeric_cols else Inr []) of
        Inl e \<Rightarrow> Inl e
      | Inr ratios \<Rightarrow>
          Inr (concat (map percentile_kpis numeric_cols)
               @ ratios
               @ (if datetime_cols \<noteq> [] \<and> numeric_cols \<noteq> []
                  then map (growth_kpi (hd datetime_cols)) (take 2 numeric_cols) else [])))"

section \<open>The creative rules (\<open>creative_kpis.py\<close>)\<close>

subsection \<open>\<open>detect_anomalies_kpis\<close>\<close>

text \<open>
  The comparisons of the column with the fences need numbers: a string or a timestamp
  among the non-null values raises \<open>TypeError\<close>.
\<close>

definition numeric_data :: "series \<Rightarrow> error + real list" where
  "numeric_data s =
     (case numbers_of (dropna (cells s)) of
        Some xs \<Rightarrow> Inr xs
      | None \<Rightarrow> Inl (TypeError ''numeric''))"

definition zscore_kpi :: "pylib \<Rightarrow> string \<Rightarrow> nat \<Rightarrow> real \<Rightarrow> kpi" where
  "zscore_kpi L col anomalies anomaly_pct =
     \<lparr>name = ''Anomaly Rate in '' @ pretty col,
      description = format_1f L anomaly_pct @ ''% of '' @ col
        @ '' values are statistical anomalies (3+ standard deviations from mean). ''
        @ ''These outliers may indicate data errors or exceptional events worth investigating.'',
      logic = ''COUNT(CASE WHEN ABS(('' @ col @ '' - AVG('' @ col @ '')) / STDDEV('' @ col
        @ '')) > 3 THEN 1 END) / COUNT'' @ ''('' @ ''*'' @ '') * 100'',
      columns_used = [col], category = ''anomaly_detection'', subcategory = ''zscore_anomalies'',
      difficulty = ''advanced'', sql_function = ''ANOMALY_RATE'', group_by = None,
      group_by_function = None, column = Some col,
      extras = [(''anomaly_count'', N (real anomalies)), (''anomaly_percentage'', N anomaly_pct),
        (''insight'',
         S ''High anomaly rates may indicate data quality issues or exceptional business events.'')]\<rparr>"

definition iqr_kpi :: "pylib \<Rightarrow> string \<Rightarrow> nat \<Rightarrow> real \<Rightarrow> kpi" where
  "iqr_kpi L col outliers outlier_pct =
     \<lparr>name = ''Outlier Detection in '' @ pretty col,
      description = format_1f L outlier_pct
        @ ''% of records are outliers based on IQR method. ''
        @ ''Outliers can reveal exceptional cases or data quality issues.'',
      logic = ''IQR-based outlier detection for '' @ col,
      columns_used = [col], category = ''anomaly_detection'', subcategory = ''iqr_outliers'',
      difficulty = ''advanced'', sql_function = ''OUTLIER_DETECTION'', group_by = None,
      group_by_function = None, column = Some col,
      extras = [(''outlier_count'', N (real outliers)), (''outlier_percentage'', N outlier_pct),
        (''insight'',
         S ''Consider investigating outliers - they may represent opportunities or errors.'')]\<rparr>"

text \<open>
  The number of values outside the fences \<open>Q1 - 1.5 * IQR\<close> and \<open>Q3 + 1.5 * IQR\<close>, which
  are computed in \<open>float64\<close> arithmetic. Nulls compare false; with a quartile that is
  \<open>NaN\<close> every comparison is false.
\<close>

definition iqr_outliers :: "pylib \<Rightarrow> real option \<Rightarrow> real option \<Rightarrow> real list \<Rightarrow> nat" where
  "iqr_outliers L Q1 Q3 xs =
     (case (Q1, Q3) of
        (Some q1, Some q3) \<Rightarrow>
          (let IQR = float_sub L q3 q1;
               lower_fence = float_sub L q1 (float_mul L 1.5 IQR);
               upper_fence = float_add L q3 (float_mul L 1.5 IQR)
           in length (filter (\<lambda>x. x < lower_fence \<or> x > upper_fence) xs))
      | _ \<Rightarrow> 0)"

text \<open>
  \<open>(outliers / len(df)) * 100\<close> divides a NumPy integer: with no rows the count is 0
  and \<open>0 / 0\<close> is \<open>NaN\<close>, not an exception.
  The quotient and the product are written in exact arithmetic; rounded to \<open>float64\<close>
  they compare with 5 in the same way for every table of fewer than \<open>10 ^ 15\<close> rows
  (\<open>1 / 20 * 100\<close> is \<open>5.0\<close> in \<open>float64\<close>).
\<close>

definition outlier_percentage :: "nat \<Rightarrow> dataframe \<Rightarrow> real option" where
  "outlier_percentage outliers df =
     (if nrows df = 0 then None else Some (real outliers / real (nrows df) * 100))"

text \<open>
  The body of the loop over the numeric columns, in the order of the code: the
  z-scores, the first descriptor, the two quartiles, the comparisons with the fences,
  the second descriptor. \<open>zscore\<close> and \<open>quantile\<close> may raise (on a storage type or on
  values they reject), and so may the comparisons.
\<close>

definition anomalies_for :: "pylib \<Rightarrow> dataframe \<Rightarrow> string \<Rightarrow> error + kpi list" where
  "anomalies_for L df col =
     (case getitem df col of
        Inl e \<Rightarrow> Inl e
      | Inr s \<Rightarrow>
          (let data = dropna (cells s) in
           case zscore L (dtype s) data of
             None \<Rightarrow> Inl (TypeError ''zscore'')
           | Some z_scores \<Rightarrow>
               (let anomalies = length (filter (\<lambda>z. nan_greater (map_option abs z) 3) z_scores);
                    anomaly_pct = (if length data > 0
                                   then real anomalies / real (length data) * 100 else 0)
                in case quantile L (dtype s) 0.25 data of
                     None \<Rightarrow> Inl (TypeError ''quantile'')
                   | Some Q1 \<Rightarrow>
                       (case quantile L (dtype s) 0.75 data of
                          None \<Rightarrow> Inl (TypeError ''quantile'')
                        | Some Q3 \<Rightarrow>
                            (case numeric_data s of
                               Inl e \<Rightarrow> Inl e
                             | Inr xs \<Rightarrow>
                                 (let outliers = iqr_outliers L Q1 Q3 xs in
                                  Inr ((if anomaly_pct > 0
                                        then [zscore_kpi L col anomalies anomaly_pct] else [])
                                       @ (case outlier_percentage outliers df of
                                            None \<Rightarrow> []
                                          | Some outlier_pct \<Rightarrow>
                                              if outlier_pct > 5
                                              then [iqr_kpi L col outliers outlier_pct]
                                              else []))))))))"

definition detect_anomalies_kpis :: "pylib \<Rightarrow> dataframe \<Rightarrow> schema \<Rightarrow> error + kpi list" where
  "detect_anomalies_kpis L df sch = concat_results (map (anomalies_for L df) (numeric_columns sch))"

subsection \<open>\<open>generate_creative_kpis\<close>\<close>

text \<open>
  The seasonality, comparative, distribution and trend rules are pipelines of pandas
  and SciPy statistics (group means, variances, skewness, sorting). What they emit is
  left open here: each is a function that returns descriptors or raises, and the
  results below hold for every choice of the four.
\<close>

record creative_rules =
  detect_seasonality_kpis :: "dataframe \<Rightarrow> schema \<Rightarrow> error + kpi list"
  generate_comparative_kpis :: "dataframe \<Rightarrow> schema \<Rightarrow> error + kpi list"
  detect_distribution_patterns_kpis :: "dataframe \<Rightarrow> schema \<Rightarrow> error + kpi list"
  detect_trend_breakpoints_kpis :: "dataframe \<Rightarrow> schema \<Rightarrow> error + kpi list"

definition generate_creative_kpis ::
  "pylib \<Rightarrow> creative_rules \<Rightarrow> dataframe \<Rightarrow> schema \<Rightarrow> error + kpi list" where
  "generate_creative_kpis L R df sch =
     concat_results
       [detect_anomalies_kpis L df sch,
        detect_seasonality_kpis R df sch,
        generate_comparative_kpis R df sch,
        detect_distribution_patterns_kpis R df sch,
        detect_trend_breakpoints_kpis R df sch]"

section \<open>\<open>generate_kpis\<close>\<close>

text \<open>
  The list \<open>all_kpis\<close> as it stands before the duplicates are removed, with the lines
  printed so far. The five rule families of \<open>kpi_rules.py\<close> run outside any \<open>try\<close>;
  the creative family runs inside one, and \<open>except Exception\<close> prints a warning.
\<close>

definition all_kpis ::
  "pylib \<Rightarrow> creative_rules \<Rightarrow> schema \<Rightarrow> dataframe \<Rightarrow> error + kpi list \<times> string list" where
  "all_kpis L R sch df =
     (case generate_conversion_kpis L sch df of
        Inl e \<Rightarrow> Inl e
      | Inr conversion \<Rightarrow>
          (case generate_advanced_kpis L sch df of
             Inl e \<Rightarrow> Inl e
           | Inr advanced \<Rightarrow>
               (let five = generate_aggregation_kpis sch df
                           @ generate_time_series_kpis L sch df
                           @ generate_category_breakdown_kpis sch df
                           @ conversion @ advanced
                in case generate_creative_kpis L R df sch of
                     Inr creative_kpis \<Rightarrow> Inr (five @ creative_kpis, [])
                   | Inl e \<Rightarrow>
                       Inr (five,
                            [''Warning: Could not generate creative KPIs: '' @ exc_str L e]))))"

text \<open>The loop that removes duplicates, with its set \<open>seen_names\<close> and list \<open>unique_kpis\<close>.\<close>

fun remove_duplicates :: "kpi list \<Rightarrow> string set \<Rightarrow> kpi list \<Rightarrow> kpi list" where
  "remove_duplicates [] seen_names unique_kpis = unique_kpis"
| "remove_duplicates (k # ks) seen_names unique_kpis =
     (if name k \<notin> seen_names
      then remove_duplicates ks (insert (name k) seen_names) (unique_kpis @ [k])
      else remove_duplicates ks seen_names unique_kpis)"

definition generate_kpis ::
  "pylib \<Rightarrow> creative_rules \<Rightarrow> schema \<Rightarrow> dataframe \<Rightarrow> error + kpi list \<times> string list" where
  "generate_kpis L R sch df =
     (case all_kpis L R sch df of
        Inl e \<Rightarrow> Inl e
      | Inr (kpis, printed) \<Rightarrow> Inr (remove_duplicates kpis {} [], printed))"

section \<open>Auxiliary notions for the proofs\<close>

text \<open>
  The list a column goes to: the type that \<open>infer_column_type\<close> returns, with the
  final \<open>else\<close> of \<open>infer_schema\<close> sending any other string to the categorical list.
\<close>

definition bucket :: "string \<Rightarrow> string" where
  "bucket t =
     (if t \<in> set [''id'', ''datetime'', ''categorical'', ''numeric'', ''text''] then t
      else ''categorical'')"

definition role :: "pylib \<Rightarrow> dataframe \<Rightarrow> string \<Rightarrow> string" where
  "role L df c = (case infer_column_type L df c of Inl e \<Rightarrow> [] | Inr t \<Rightarrow> bucket t)"

text \<open>
  The calls of the loop body of \<open>detect_anomalies_kpis\<close> return for a column: the
  column is in the table under one label, \<open>zscore\<close> and \<open>quantile\<close> return on it, and
  its non-null values are numbers.
\<close>

definition anomaly_calls_return :: "pylib \<Rightarrow> dataframe \<Rightarrow> string \<Rightarrow> bool" where
  "anomaly_calls_return L df col =
     (case getitem df col of
        Inl e \<Rightarrow> False
      | Inr s \<Rightarrow>
          zscore L (dtype s) (dropna (cells s)) \<noteq> None
          \<and> quantile L (dtype s) 0.25 (dropna (cells s)) \<noteq> None
          \<and> quantile L (dtype s) 0.75 (dropna (cells s)) \<noteq> None
          \<and> numbers_of (dropna (cells s)) \<noteq> None)"


section \<open>Example inputs\<close>

text \<open>
  A small stand-in for the library, used only to evaluate examples.
  \<^item> \<open>pd.to_datetime\<close> rejects boolean and categorical storage and otherwise converts
    value by value: the listed date strings, every number and every timestamp convert.
  \<^item> Float arithmetic is exact arithmetic, with which \<open>float64\<close> arithmetic agrees on
    the numbers of the examples.
  \<^item> \<open>quantile\<close> raises on boolean storage and on values that are no numbers, and
    interpolates linearly between the order statistics, as pandas does by default.
  \<^item> \<open>zscore\<close> standardises with the mean and the population standard deviation, as SciPy
    does by default; with a deviation of 0 every score is \<open>NaN\<close>.
  \<^item> \<open>:.1f\<close> prints a number below 1000 that has one decimal place.
\<close>

definition example_dates :: "(string \<times> timestamp) list" where
  "example_dates =
     [(''2019-07-01'', Timestamp 2019 7 1 0), (''2020-07-01'', Timestamp 2020 7 1 0),
      (''2021-07-01'', Timestamp 2021 7 1 0), (''2022-07-01'', Timestamp 2022 7 1 0)]"

definition example_parse :: "cell \<Rightarrow> timestamp option" where
  "example_parse v =
     (case v of
        StrV s \<Rightarrow> map_of example_dates s
      | NumV x \<Rightarrow> Some (Timestamp 1970 1 1 0)
      | TimeV t \<Rightarrow> Some t)"

fun all_some :: "'a option list \<Rightarrow> 'a list option" where
  "all_some [] = Some []"
| "all_some (None # vs) = None"
| "all_some (Some v # vs) = (case all_some vs of None \<Rightarrow> None | Some xs \<Rightarrow> Some (v # xs))"

definition example_convert :: "dtype \<Rightarrow> cell list \<Rightarrow> timestamp list option" where
  "example_convert d sample =
     (if d \<in> set [Bool, Category] then None else all_some (map example_parse sample))"

definition example_coerce :: "dtype \<Rightarrow> cell list \<Rightarrow> timestamp option list option" where
  "example_coerce d sample =
     (if d \<in> set [Bool, Category] then None else Some (map example_parse sample))"

definition linear_quantile :: "real \<Rightarrow> real list \<Rightarrow> real option" where
  "linear_quantile q xs =
     (if xs = [] then None
      else (let ys = sort xs;
                h = q * real (length ys - 1);
                lo = nat \<lfloor>h\<rfloor>;
                hi = min (lo + 1) (length ys - 1)
            in Some (ys ! lo + (h - real lo) * (ys ! hi - ys ! lo))))"

definition example_quantile :: "dtype \<Rightarrow> real \<Rightarrow> cell list \<Rightarrow> real option option" where
  "example_quantile d q vs =
     (if d = Bool then None
      else (case numbers_of vs of None \<Rightarrow> None | Some xs \<Rightarrow> Some (linear_quantile q xs)))"

definition population_zscore :: "real list \<Rightarrow> real option list" where
  "population_zscore xs =
     (case mean xs of
        None \<Rightarrow> []
      | Some m \<Rightarrow>
          (let sd = sqrt (sum_list (map (\<lambda>x. (x - m)\<^sup>2) xs) / real (length xs))
           in map (\<lambda>x. if sd = 0 then None else Some ((x - m) / sd)) xs))"

definition example_zscore :: "dtype \<Rightarrow> cell list \<Rightarrow> real option list option" where
  "example_zscore d vs =
     (case numbers_of vs of None \<Rightarrow> None | Some xs \<Rightarrow> Some (population_zscore xs))"

definition digit :: "nat \<Rightarrow> char" where
  "digit n = digit_chars ! (n mod 10)"

definition decimal :: "nat \<Rightarrow> string" where
  "decimal n =
     (if n < 10 then [digit n]
      else if n < 100 then [digit (n div 10), digit n]
      else [digit (n div 100), digit (n div 10), digit n])"

definition example_format_1f :: "real \<Rightarrow> string" where
  "example_format_1f x = decimal (nat \<lfloor>x\<rfloor>) @ ''.'' @ [digit (nat \<lfloor>10 * x\<rfloor>)]"

definition example_exc_str :: "error \<Rightarrow> string" where
  "example_exc_str e =
     (case e of
        KeyError c \<Rightarrow> c
      | ZeroDivisionError \<Rightarrow> ''division by zero''
      | NotASeries c \<Rightarrow> c
      | TypeError m \<Rightarrow> m
      | RuleError m \<Rightarrow> m)"

definition example_lib :: pylib where
  "example_lib =
     \<lparr>datetime_convert = example_convert,
      datetime_coerce = example_coerce,
      py_str = (\<lambda>v. ''nan''),
      float_sum = sum_list,
      float_add = (\<lambda>a b. a + b),
      float_sub = (\<lambda>a b. a - b),
      float_mul = (\<lambda>a b. a * b),
      quantile = example_quantile,
      zscore = example_zscore,
      format_1f = example_format_1f,
      exc_str = example_exc_str\<rparr>"

text \<open>Creative rules of which the seasonality rule raises.\<close>

definition failing_rules :: creative_rules where
  "failing_rules =
     \<lparr>detect_seasonality_kpis = (\<lambda>df sch. Inl (RuleError ''seasonality'')),
      generate_comparative_kpis = (\<lambda>df sch. Inr []),
      detect_distribution_patterns_kpis = (\<lambda>df sch. Inr []),
      detect_trend_breakpoints_kpis = (\<lambda>df sch. Inr [])\<rparr>"

text \<open>Creative rules that emit two descriptors of the same name as an aggregation.\<close>

definition echoing_rules :: creative_rules where
  "echoing_rules =
     \<lparr>detect_seasonality_kpis = (\<lambda>df sch. Inr [total_records_kpi\<lparr>category := ''pattern_detection''\<rparr>]),
      generate_comparative_kpis = (\<lambda>df sch. Inr []),
      detect_distribution_patterns_kpis = (\<lambda>df sch. Inr []),
      detect_trend_breakpoints_kpis = (\<lambda>df sch. Inr [])\<rparr>"

definition numbers :: "real list \<Rightarrow> cell option list" where
  "numbers xs = map (\<lambda>x. Some (NumV x)) xs"

definition strings :: "string list \<Rightarrow> cell option list" where
  "strings xs = map (\<lambda>x. Some (StrV x)) xs"

text \<open>Five orders.\<close>

definition orders :: dataframe where
  "orders =
     \<lparr>nrows = 5,
      columns =
        [\<lparr>sname = ''order_id'', dtype = Int64, cells = numbers [1, 2, 3, 4, 5]\<rparr>,
         \<lparr>sname = ''order_date'', dtype = Object,
          cells = strings [''2019-07-01'', ''2020-07-01'', ''2021-07-01'', ''2022-07-01'',
                           ''2022-07-01'']\<rparr>,
         \<lparr>sname = ''region'', dtype = Object,
          cells = strings [''north'', ''south'', ''north'', ''north'', ''south'']\<rparr>,
         \<lparr>sname = ''amount'', dtype = Float, cells = numbers [10, 0, 30, 40, 20]\<rparr>]\<rparr>"

definition orders_schema :: schema where
  "orders_schema =
     \<lparr>id_columns = [''order_id''], datetime_columns = [''order_date''],
      categorical_columns = [''region''], numeric_columns = [''amount''], text_columns = [],
      raw_columns = [''order_id'', ''order_date'', ''region'', ''amount'']\<rparr>"

text \<open>A table with one row and no column, and the schema of a table with no column.\<close>

definition one_row :: dataframe where
  "one_row = \<lparr>nrows = 1, columns = []\<rparr>"

definition empty_schema :: schema where
  "empty_schema =
     \<lparr>id_columns = [], datetime_columns = [], categorical_columns = [], numeric_columns = [],
      text_columns = [], raw_columns = []\<rparr>"

text \<open>A table with no row and an integer column.\<close>

definition no_rows :: dataframe where
  "no_rows = \<lparr>nrows = 0, columns = [\<lparr>sname = ''x'', dtype = Int64, cells = []\<rparr>,
                                      \<lparr>sname = ''y'', dtype = Object, cells = []\<rparr>]\<rparr>"

text \<open>Four rows, one date per calendar year.\<close>

definition yearly :: dataframe where
  "yearly =
     \<lparr>nrows = 4,
      columns =
        [\<lparr>sname = ''closing_date'', dtype = Datetime64,
          cells = [Some (TimeV (Timestamp 2019 12 31 0)), Some (TimeV (Timestamp 2020 12 31 0)),
                   Some (TimeV (Timestamp 2021 12 31 0)), Some (TimeV (Timestamp 2022 12 31 0))]\<rparr>,
         \<lparr>sname = ''revenue'', dtype = Float, cells = numbers [10, 20, 30, 40]\<rparr>]\<rparr>"

definition yearly_schema :: schema where
  "yearly_schema =
     \<lparr>id_columns = [], datetime_columns = [''closing_date''], categorical_columns = [],
      numeric_columns = [''revenue''], text_columns = [],
      raw_columns = [''closing_date'', ''revenue'']\<rparr>"

text \<open>Two numeric columns, the second of which is zero throughout.\<close>

definition zero_second :: dataframe where
  "zero_second =
     \<lparr>nrows = 2,
      columns = [\<lparr>sname = ''b'', dtype = Int64, cells = numbers [1, 1]\<rparr>,
                 \<lparr>sname = ''a'', dtype = Int64, cells = numbers [0, 0]\<rparr>]\<rparr>"

text \<open>The same with a first column whose sum is \<open>2 ^ 64\<close>, which \<open>int64\<close> wraps to 0.\<close>

definition wrapping :: dataframe where
  "wrapping =
     \<lparr>nrows = 3,
      columns = [\<lparr>sname = ''b'', dtype = Int64,
                  cells = numbers [9223372036854775807, 9223372036854775807, 2]\<rparr>,
                 \<lparr>sname = ''a'', dtype = Int64, cells = numbers [0, 0, 0]\<rparr>]\<rparr>"

definition zero_second_schema :: schema where
  "zero_second_schema =
     \<lparr>id_columns = [], datetime_columns = [], categorical_columns = [],
      numeric_columns = [''b'', ''a''], text_columns = [], raw_columns = [''b'', ''a'']\<rparr>"

text \<open>
  Tables of twenty rows with one numeric column \<open>x\<close>: nineteen or twenty distinct
  values, and nineteen or eighteen zeros with one or two values far off.
\<close>

definition twenty :: "dtype \<Rightarrow> real list \<Rightarrow> dataframe" where
  "twenty d xs = \<lparr>nrows = 20, columns = [\<lparr>sname = ''x'', dtype = d, cells = numbers xs\<rparr>]\<rparr>"

definition nineteen_distinct :: "real list" where
  "nineteen_distinct = [1, 1, 2, 3, 4, 5, 6, 7, 8, 9, 10, 11, 12, 13, 14, 15, 16, 17, 18, 19]"

definition twenty_distinct :: "real list" where
  "twenty_distinct = [1, 2, 3, 4, 5, 6, 7, 8, 9, 10, 11, 12, 13, 14, 15, 16, 17, 18, 19, 20]"


definition two_off :: "real list" where
  "two_off = [0, 0, 0, 0, 0, 0, 0, 0, 0, 0, 0, 0, 0, 0, 0, 0, 0, 0, 100, 100]"

definition x_schema :: schema where
  "x_schema =
     \<lparr>id_columns = [], datetime_columns = [], categorical_columns = [],
      numeric_columns = [''x''], text_columns = [], raw_columns = [''x'']\<rparr>"

text \<open>A table with no row and a boolean column under a date-like name.\<close>

definition flags :: dataframe where
  "flags = \<lparr>nrows = 0, columns = [\<lparr>sname = ''updated'', dtype = Bool, cells = []\<rparr>]\<rparr>"

text \<open>Three rows: fruit names under a date-like name, and nulls under a key-like date name.\<close>

definition fruit :: dataframe where
  "fruit =
     \<lparr>nrows = 3,
      columns =
        [\<lparr>sname = ''update_day'', dtype = Object,
          cells = strings [''apple'', ''banana'', ''cherry'']\<rparr>,
         \<lparr>sname = ''date_key'', dtype = Object, cells = [None, None, None]\<rparr>,
         \<lparr>sname = ''created'', dtype = Object, cells = [None, None, None]\<rparr>,
         \<lparr>sname = ''remark'', dtype = Object, cells = [None, None, None]\<rparr>]\<rparr>"

section \<open>Properties\<close>

subsection \<open>Evaluation rules and general lemmas\<close>

lemmas string_eval =
  lower_def lower_char_def upper_char_def upper_letters_def lower_letters_def digit_chars_def
  is_alpha_def is_word_char_def replace_underscores_def title_def pretty_def

lemmas pattern_eval =
  detect_column_pattern_def re_search_def ID_PATTERNS_def DATETIME_PATTERNS_def
  CATEGORICAL_PATTERNS_def word_boundary_def at_end_def contains_def

lemmas dtype_eval =
  is_numeric_dtype_def is_datetime64_any_dtype_def is_string_dtype_def is_bool_dtype_def

lemmas kpi_eval =
  per_day_kpi_def per_month_kpi_def per_year_kpi_def time_series_kpi_def

lemma example_lib_fields:
  "datetime_convert example_lib = example_convert"
  "datetime_coerce example_lib = example_coerce"
  "float_sum example_lib = sum_list"
  "float_add example_lib = (\<lambda>a b. a + b)"
  "float_sub example_lib = (\<lambda>a b. a - b)"
  "float_mul example_lib = (\<lambda>a b. a * b)"
  "quantile example_lib = example_quantile"
  "zscore example_lib = example_zscore"
  "format_1f example_lib = example_format_1f"
  "exc_str example_lib = example_exc_str"
  by (simp_all add: example_lib_def)

lemma set_dropna: "set (dropna xs) = {v. Some v \<in> set xs}"
  by (induction xs rule: dropna.induct) auto

lemma dropna_all_null: "list_all (\<lambda>v. v = None) xs \<Longrightarrow> dropna xs = []"
  by (induction xs rule: dropna.induct) auto

lemma getitem_in: "getitem df c = Inr s \<Longrightarrow> s \<in> set (columns df) \<and> sname s = c"
proof -
  assume a: "getitem df c = Inr s"
  then have "filter (\<lambda>s. sname s = c) (columns df) = [s]"
    by (auto simp: getitem_def split: list.splits)
  then have "s \<in> set (filter (\<lambda>s. sname s = c) (columns df))" by simp
  then show ?thesis by simp
qed

lemma getitem_column: "getitem df c = Inr s \<Longrightarrow> c \<in> set (map sname (columns df))"
  using getitem_in [of df c s] by force

lemma wf_getitem: "wf_dataframe df \<Longrightarrow> getitem df c = Inr s \<Longrightarrow> wf_series (nrows df) s"
  using getitem_in [of df c s] by (simp add: wf_dataframe_def list_all_iff)

lemma unique_from_distinct:
  "distinct xs \<Longrightarrow> set xs \<inter> set seen = {} \<Longrightarrow> unique_from seen xs = xs"
  by (induction xs arbitrary: seen) auto

lemma unique_distinct: "distinct xs \<Longrightarrow> unique xs = xs"
  by (simp add: unique_def unique_from_distinct)


lemma concat_results_fails:
  "x \<in> set xs \<Longrightarrow> f x = Inl e \<Longrightarrow> \<exists>e'. concat_results (map f xs) = Inl e'"
  by (induction xs) (auto split: sum.splits)

lemma timestamps_of_time:
  "(\<forall>v \<in> set vs. \<exists>t. v = TimeV t) \<Longrightarrow> \<exists>ts. timestamps_of vs = Some ts"
proof (induction vs)
  case Nil
  show ?case by simp
next
  case (Cons v vs)
  then obtain t ts where "v = TimeV t" "timestamps_of vs = Some ts" by auto
  then show ?case by simp
qed

lemma numbers_of_numbers: "numbers_of (dropna (numbers xs)) = Some xs"
  by (induction xs) (simp_all add: numbers_def)

lemma length_dropna_numbers: "length (dropna (numbers xs)) = length xs"
  by (induction xs) (simp_all add: numbers_def)

subsection \<open>Names and tables of the examples\<close>

lemma names_x:
  "\<not> detect_column_pattern ''x'' ID_PATTERNS"
  "\<not> detect_column_pattern ''x'' DATETIME_PATTERNS"
  by (simp_all add: string_eval pattern_eval)

lemma names_y:
  "\<not> detect_column_pattern ''y'' ID_PATTERNS"
  "\<not> detect_column_pattern ''y'' DATETIME_PATTERNS"
  "\<not> detect_column_pattern ''y'' CATEGORICAL_PATTERNS"
  by (simp_all add: string_eval pattern_eval)

lemma names_update_day:
  "\<not> detect_column_pattern ''update_day'' ID_PATTERNS"
  "detect_column_pattern ''update_day'' DATETIME_PATTERNS"
  "\<not> detect_column_pattern ''update_day'' CATEGORICAL_PATTERNS"
  by (simp_all add: string_eval pattern_eval)

lemma names_date_key:
  "detect_column_pattern ''date_key'' ID_PATTERNS"
  "detect_column_pattern ''date_key'' DATETIME_PATTERNS"
  by (simp_all add: string_eval pattern_eval)

lemma names_created:
  "\<not> detect_column_pattern ''created'' ID_PATTERNS"
  "detect_column_pattern ''created'' DATETIME_PATTERNS"
  by (simp_all add: string_eval pattern_eval)

lemma names_remark:
  "\<not> detect_column_pattern ''remark'' ID_PATTERNS"
  "\<not> detect_column_pattern ''remark'' DATETIME_PATTERNS"
  by (simp_all add: string_eval pattern_eval)

lemma names_updated:
  "\<not> detect_column_pattern ''updated'' ID_PATTERNS"
  "detect_column_pattern ''updated'' DATETIME_PATTERNS"
  by (simp_all add: string_eval pattern_eval)

lemma names_orders:
  "detect_column_pattern ''order_id'' ID_PATTERNS"
  "\<not> detect_column_pattern ''order_date'' ID_PATTERNS"
  "detect_column_pattern ''order_date'' DATETIME_PATTERNS"
  "\<not> detect_column_pattern ''region'' ID_PATTERNS"
  "\<not> detect_column_pattern ''region'' DATETIME_PATTERNS"
  "detect_column_pattern ''region'' CATEGORICAL_PATTERNS"
  "\<not> detect_column_pattern ''amount'' ID_PATTERNS"
  "\<not> detect_column_pattern ''amount'' DATETIME_PATTERNS"
  by (simp_all add: string_eval pattern_eval)

lemma closing_date_no_year: "\<not> contains ''year'' (lower ''closing_date'')"
  by (simp add: string_eval pattern_eval)

lemma nunique_nineteen: "nunique (numbers nineteen_distinct) = 19"
  by (simp add: nunique_def unique_def numbers_def nineteen_distinct_def)

lemma nunique_twenty: "nunique (numbers twenty_distinct) = 20"
  by (simp add: nunique_def unique_def numbers_def twenty_distinct_def)

lemma getitem_twenty: "getitem (twenty d xs) ''x'' = Inr \<lparr>sname = ''x'', dtype = d, cells = numbers xs\<rparr>"
  by (simp add: getitem_def twenty_def)

lemma getitem_fruit:
  "getitem fruit ''update_day''
     = Inr \<lparr>sname = ''update_day'', dtype = Object, cells = strings [''apple'', ''banana'', ''cherry'']\<rparr>"
  "getitem fruit ''date_key'' = Inr \<lparr>sname = ''date_key'', dtype = Object, cells = [None, None, None]\<rparr>"
  "getitem fruit ''created'' = Inr \<lparr>sname = ''created'', dtype = Object, cells = [None, None, None]\<rparr>"
  "getitem fruit ''remark'' = Inr \<lparr>sname = ''remark'', dtype = Object, cells = [None, None, None]\<rparr>"
  by (simp_all add: getitem_def fruit_def)

lemma wf_fruit: "wf_dataframe fruit"
  by (simp add: wf_dataframe_def wf_series_def fruit_def strings_def)

lemma nrows_fruit: "nrows fruit > 0"
  by (simp add: fruit_def)

lemma fruit_unparsed:
  "to_datetime_raise example_lib Object
     (take 100 (dropna (strings [''apple'', ''banana'', ''cherry''])))
     = Inl (TypeError ''to_datetime'')"
  by (simp add: to_datetime_raise_def native_timestamps_def example_lib_fields
      example_convert_def example_parse_def example_dates_def strings_def)

lemma getitem_flags:
  "getitem flags ''updated'' = Inr \<lparr>sname = ''updated'', dtype = Bool, cells = []\<rparr>"
  by (simp add: getitem_def flags_def)

lemma empty_sample_example:
  "to_datetime_raise example_lib Bool [] = Inl (TypeError ''to_datetime'')"
  "to_datetime_raise example_lib Object [] = Inr []"
  by (simp_all add: to_datetime_raise_def native_timestamps_def example_lib_fields
      example_convert_def)

lemma getitem_orders:
  "getitem orders ''order_date''
     = Inr \<lparr>sname = ''order_date'', dtype = Object,
          cells = strings [''2019-07-01'', ''2020-07-01'', ''2021-07-01'', ''2022-07-01'',
                           ''2022-07-01'']\<rparr>"
  "getitem orders ''region''
     = Inr \<lparr>sname = ''region'', dtype = Object,
          cells = strings [''north'', ''south'', ''north'', ''north'', ''south'']\<rparr>"
  "getitem orders ''amount''
     = Inr \<lparr>sname = ''amount'', dtype = Float, cells = numbers [10, 0, 30, 40, 20]\<rparr>"
  by (simp_all add: getitem_def orders_def)

lemma nrows_orders: "nrows orders = 5"
  by (simp add: orders_def)

lemma getitem_yearly:
  "getitem yearly ''closing_date''
     = Inr \<lparr>sname = ''closing_date'', dtype = Datetime64,
          cells = [Some (TimeV (Timestamp 2019 12 31 0)), Some (TimeV (Timestamp 2020 12 31 0)),
                   Some (TimeV (Timestamp 2021 12 31 0)), Some (TimeV (Timestamp 2022 12 31 0))]\<rparr>"
  by (simp add: getitem_def yearly_def)

lemma coerce_yearly:
  "to_datetime_coerce L Datetime64
     [TimeV (Timestamp 2019 12 31 0), TimeV (Timestamp 2020 12 31 0),
      TimeV (Timestamp 2021 12 31 0), TimeV (Timestamp 2022 12 31 0)]
     = Inr [Some (Timestamp 2019 12 31 0), Some (Timestamp 2020 12 31 0),
            Some (Timestamp 2021 12 31 0), Some (Timestamp 2022 12 31 0)]"
  by (simp add: to_datetime_coerce_def native_timestamps_def)

lemma getitem_zero_second:
  "getitem zero_second ''a'' = Inr \<lparr>sname = ''a'', dtype = Int64, cells = numbers [0, 0]\<rparr>"
  "getitem zero_second ''b'' = Inr \<lparr>sname = ''b'', dtype = Int64, cells = numbers [1, 1]\<rparr>"
  by (simp_all add: getitem_def zero_second_def)

lemma getitem_wrapping:
  "getitem wrapping ''b''
     = Inr \<lparr>sname = ''b'', dtype = Int64,
          cells = numbers [9223372036854775807, 9223372036854775807, 2]\<rparr>"
  "getitem wrapping ''a'' = Inr \<lparr>sname = ''a'', dtype = Int64, cells = numbers [0, 0, 0]\<rparr>"
  by (simp_all add: getitem_def wrapping_def)

subsection \<open>The five role lists partition the columns\<close>

lemma add_column_fields:
  "id_columns (add_column sch c t) = id_columns sch @ (if bucket t = ''id'' then [c] else [])"
  "datetime_columns (add_column sch c t) = datetime_columns sch @ (if bucket t = ''datetime'' then [c] else [])"
  "categorical_columns (add_column sch c t) = categorical_columns sch @ (if bucket t = ''categorical'' then [c] else [])"
  "numeric_columns (add_column sch c t) = numeric_columns sch @ (if bucket t = ''numeric'' then [c] else [])"
  "text_columns (add_column sch c t) = text_columns sch @ (if bucket t = ''text'' then [c] else [])"
  "raw_columns (add_column sch c t) = raw_columns sch"
  by (simp_all add: add_column_def bucket_def)

lemma infer_schema_loop_fields:
  "infer_schema_loop L df cols sch = Inr sch' \<Longrightarrow>
     id_columns sch' = id_columns sch @ filter (\<lambda>c. role L df c = ''id'') cols \<and>
     datetime_columns sch' = datetime_columns sch @ filter (\<lambda>c. role L df c = ''datetime'') cols \<and>
     categorical_columns sch' = categorical_columns sch @ filter (\<lambda>c. role L df c = ''categorical'') cols \<and>
     numeric_columns sch' = numeric_columns sch @ filter (\<lambda>c. role L df c = ''numeric'') cols \<and>
     text_columns sch' = text_columns sch @ filter (\<lambda>c. role L df c = ''text'') cols \<and>
     raw_columns sch' = raw_columns sch \<and>
     (\<forall>c \<in> set cols. role L df c \<in> set [''id'', ''datetime'', ''categorical'', ''numeric'', ''text''])"
proof (induction cols arbitrary: sch)
  case Nil
  then show ?case by simp
next
  case (Cons c cols)
  from Cons.prems obtain t where t: "infer_column_type L df c = Inr t"
    and rest: "infer_schema_loop L df cols (add_column sch c t) = Inr sch'"
    by (auto split: sum.splits)
  have r: "role L df c = bucket t" by (simp add: role_def t)
  have b: "bucket t \<in> set [''id'', ''datetime'', ''categorical'', ''numeric'', ''text'']"
    by (simp add: bucket_def)
  from Cons.IH [OF rest] r b show ?case
    by (simp add: add_column_fields)
qed

lemma five_filters_mset:
  "\<forall>c \<in> set cols. f c \<in> set [a1, a2, a3, a4, a5] \<Longrightarrow> distinct [a1, a2, a3, a4, a5] \<Longrightarrow>
   mset (filter (\<lambda>c. f c = a1) cols) + mset (filter (\<lambda>c. f c = a2) cols) + mset (filter (\<lambda>c. f c = a3) cols)
     + mset (filter (\<lambda>c. f c = a4) cols) + mset (filter (\<lambda>c. f c = a5) cols) = mset cols"
  by (induction cols) auto

lemma five_filters_once:
  "f c \<in> set [a1, a2, a3, a4, a5] \<Longrightarrow> distinct [a1, a2, a3, a4, a5] \<Longrightarrow> c \<in> set cols \<Longrightarrow>
   length (filter (\<lambda>l. c \<in> set l)
     [filter (\<lambda>c. f c = a1) cols, filter (\<lambda>c. f c = a2) cols, filter (\<lambda>c. f c = a3) cols,
      filter (\<lambda>c. f c = a4) cols, filter (\<lambda>c. f c = a5) cols]) = 1"
  by auto

lemma getitem_distinct:
  "distinct (map sname cols) \<Longrightarrow> c \<in> set (map sname cols) \<Longrightarrow>
     \<exists>s. filter (\<lambda>s. sname s = c) cols = [s]"
proof (induction cols)
  case Nil
  then show ?case by simp
next
  case (Cons x cols)
  show ?case
  proof (cases "sname x = c")
    case True
    with Cons.prems(1) have "c \<notin> set (map sname cols)" by auto
    then have "filter (\<lambda>s. sname s = c) cols = []" by (auto simp: filter_empty_conv)
    with True show ?thesis by simp
  next
    case False
    with Cons show ?thesis by auto
  qed
qed

lemma infer_column_type_returns:
  assumes "nrows df > 0" and "getitem df c = Inr s"
  shows "\<exists>t. infer_column_type L df c = Inr t"
  using assms by (auto simp: infer_column_type_def classify_dtype_def)

lemma infer_schema_loop_returns:
  "(\<forall>c \<in> set cols. \<exists>t. infer_column_type L df c = Inr t) \<Longrightarrow>
     \<exists>sch'. infer_schema_loop L df cols sch = Inr sch'"
  by (induction cols arbitrary: sch) auto

text \<open>
  On a table with at least one row and distinct labels, \<open>infer_schema\<close> returns.
\<close>

lemma infer_schema_returns:
  assumes "nrows df > 0" and "distinct (map sname (columns df))"
  shows "\<exists>sch. infer_schema L df = Inr sch"
proof -
  have "\<exists>t. infer_column_type L df c = Inr t" if "c \<in> set (map sname (columns df))" for c
  proof -
    from getitem_distinct [OF assms(2) that] obtain s where "getitem df c = Inr s"
      by (auto simp: getitem_def)
    with assms(1) show ?thesis by (rule infer_column_type_returns)
  qed
  then show ?thesis unfolding infer_schema_def by (intro infer_schema_loop_returns) blast
qed

text \<open>
  Claim C1. Whenever \<open>infer_schema\<close> returns a schema, its raw column list is the
  column list of the table; the five role lists together hold the columns of the table,
  each as often as the table has it (none is omitted, none is added); every column is
  in exactly one of the five lists; and when the labels of the table are distinct, no
  label occurs twice in the five lists.
\<close>

theorem infer_schema_partition:
  assumes "infer_schema L df = Inr sch"
  shows "raw_columns sch = map sname (columns df) \<and>
     mset (id_columns sch @ datetime_columns sch @ categorical_columns sch @ numeric_columns sch
             @ text_columns sch) = mset (raw_columns sch) \<and>
     (\<forall>c \<in> set (raw_columns sch).
        length (filter (\<lambda>l. c \<in> set l)
          [id_columns sch, datetime_columns sch, categorical_columns sch, numeric_columns sch,
           text_columns sch]) = 1) \<and>
     (distinct (raw_columns sch) \<longrightarrow>
        distinct (id_columns sch @ datetime_columns sch @ categorical_columns sch
                    @ numeric_columns sch @ text_columns sch))"
proof -
  let ?cols = "map sname (columns df)"
  let ?f = "role L df"
  from assms have loop: "infer_schema_loop L df ?cols
       \<lparr>id_columns = [], datetime_columns = [], categorical_columns = [],
        numeric_columns = [], text_columns = [], raw_columns = ?cols\<rparr> = Inr sch"
    by (simp add: infer_schema_def)
  note F = infer_schema_loop_fields [OF loop]
  have raw: "raw_columns sch = ?cols" using F by simp
  have ids: "id_columns sch = filter (\<lambda>c. ?f c = ''id'') ?cols" using F by simp
  have dts: "datetime_columns sch = filter (\<lambda>c. ?f c = ''datetime'') ?cols" using F by simp
  have cats: "categorical_columns sch = filter (\<lambda>c. ?f c = ''categorical'') ?cols" using F by simp
  have nums: "numeric_columns sch = filter (\<lambda>c. ?f c = ''numeric'') ?cols" using F by simp
  have txts: "text_columns sch = filter (\<lambda>c. ?f c = ''text'') ?cols" using F by simp
  have all: "\<forall>c \<in> set ?cols. ?f c \<in> set [''id'', ''datetime'', ''categorical'', ''numeric'', ''text'']"
    using F by blast
  have d: "distinct [''id'', ''datetime'', ''categorical'', ''numeric'', ''text'']" by simp
  have m: "mset (id_columns sch @ datetime_columns sch @ categorical_columns sch @ numeric_columns sch
             @ text_columns sch) = mset (raw_columns sch)"
    unfolding ids dts cats nums txts raw
    using five_filters_mset [OF all d] by (simp add: ac_simps)
  have once: "\<forall>c \<in> set (raw_columns sch).
        length (filter (\<lambda>l. c \<in> set l)
          [id_columns sch, datetime_columns sch, categorical_columns sch, numeric_columns sch,
           text_columns sch]) = 1"
    unfolding ids dts cats nums txts raw
  proof
    fix c assume c: "c \<in> set ?cols"
    with all have "?f c \<in> set [''id'', ''datetime'', ''categorical'', ''numeric'', ''text'']" by blast
    from five_filters_once [of ?f c _ _ _ _ _ ?cols, OF this d c] show "length (filter (\<lambda>l. c \<in> set l)
          [filter (\<lambda>c. ?f c = ''id'') ?cols, filter (\<lambda>c. ?f c = ''datetime'') ?cols,
           filter (\<lambda>c. ?f c = ''categorical'') ?cols, filter (\<lambda>c. ?f c = ''numeric'') ?cols,
           filter (\<lambda>c. ?f c = ''text'') ?cols]) = 1" .
  qed
  have dist: "distinct (raw_columns sch) \<longrightarrow>
        distinct (id_columns sch @ datetime_columns sch @ categorical_columns sch
                    @ numeric_columns sch @ text_columns sch)"
    using m by (metis mset_eq_imp_distinct_iff)
  from raw m once dist show ?thesis by blast
qed

lemma type_order_id: "infer_column_type example_lib orders ''order_id'' = Inr ''id''"
  by (simp add: infer_column_type_def names_orders)

lemma type_order_date: "infer_column_type example_lib orders ''order_date'' = Inr ''datetime''"
  by (simp add: infer_column_type_def names_orders name_datetime_try_def getitem_orders
      to_datetime_raise_def native_timestamps_def example_lib_fields example_convert_def
      example_parse_def example_dates_def strings_def)

lemma type_region: "infer_column_type example_lib orders ''region'' = Inr ''categorical''"
  by (simp add: infer_column_type_def names_orders getitem_orders classify_dtype_def
      classify_object_def dtype_eval to_datetime_raise_def native_timestamps_def example_lib_def
      example_convert_def example_parse_def example_dates_def strings_def nunique_def unique_def
      mean_def nan_less_def nan_greater_def str_of_def nrows_orders)

lemma type_amount: "infer_column_type example_lib orders ''amount'' = Inr ''numeric''"
  by (simp add: infer_column_type_def names_orders getitem_orders classify_dtype_def dtype_eval)

lemmas types_orders = type_order_id type_order_date type_region type_amount

lemma infer_schema_orders: "infer_schema example_lib orders = Inr orders_schema"
proof -
  have "map sname (columns orders) = [''order_id'', ''order_date'', ''region'', ''amount'']"
    by (simp add: orders_def)
  then show ?thesis
    by (simp add: infer_schema_def types_orders add_column_def orders_schema_def)
qed

text \<open>
  The schema of the five orders: one column in each of four lists.
\<close>

theorem infer_schema_partition_witness:
  "infer_schema example_lib orders = Inr orders_schema \<and>
   mset ([''order_id''] @ [''order_date''] @ [''region''] @ [''amount''] @ [])
     = mset [''order_id'', ''order_date'', ''region'', ''amount'']"
  using infer_schema_partition [OF infer_schema_orders] infer_schema_orders
  by (simp add: orders_schema_def)

subsection \<open>Duplicates are removed by name, the first one kept\<close>

lemma remove_duplicates_acc:
  "remove_duplicates ks seen acc = acc @ remove_duplicates ks seen []"
proof (induction ks arbitrary: seen acc)
  case Nil
  show ?case by simp
next
  case (Cons k ks)
  show ?case
  proof (cases "name k \<in> seen")
    case True
    then show ?thesis using Cons.IH [of seen acc] by simp
  next
    case False
    have "remove_duplicates (k # ks) seen acc = (acc @ [k]) @ remove_duplicates ks (insert (name k) seen) []"
      using False Cons.IH [of "insert (name k) seen" "acc @ [k]"] by simp
    moreover have "remove_duplicates (k # ks) seen [] = [k] @ remove_duplicates ks (insert (name k) seen) []"
      using False Cons.IH [of "insert (name k) seen" "[k]"] by simp
    ultimately show ?thesis by simp
  qed
qed

lemma remove_duplicates_Cons:
  "remove_duplicates (k # ks) seen [] =
     (if name k \<in> seen then remove_duplicates ks seen []
      else k # remove_duplicates ks (insert (name k) seen) [])"
  using remove_duplicates_acc [of ks "insert (name k) seen" "[k]"] by simp

lemma remove_duplicates_names:
  "set (map name (remove_duplicates ks seen [])) = set (map name ks) - seen"
proof (induction ks arbitrary: seen)
  case Nil
  show ?case by simp
next
  case (Cons k ks)
  show ?case unfolding remove_duplicates_Cons
    using Cons.IH [of seen] Cons.IH [of "insert (name k) seen"] by auto
qed

lemma remove_duplicates_distinct:
  "distinct (map name (remove_duplicates ks seen []))"
proof (induction ks arbitrary: seen)
  case Nil
  show ?case by simp
next
  case (Cons k ks)
  have "name k \<notin> set (map name (remove_duplicates ks (insert (name k) seen) []))"
    unfolding remove_duplicates_names by simp
  then show ?case unfolding remove_duplicates_Cons
    using Cons.IH [of seen] Cons.IH [of "insert (name k) seen"] by simp
qed

lemma remove_duplicates_subseq:
  "subseq (remove_duplicates ks seen []) ks"
proof (induction ks arbitrary: seen)
  case Nil
  show ?case by simp
next
  case (Cons k ks)
  show ?case unfolding remove_duplicates_Cons
    using Cons.IH [of seen] Cons.IH [of "insert (name k) seen"] by (auto intro: list_emb_Cons)
qed

lemma remove_duplicates_first:
  "k \<in> set (remove_duplicates ks seen []) \<Longrightarrow> find (\<lambda>x. name x = name k) ks = Some k"
proof (induction ks arbitrary: seen)
  case Nil
  then show ?case by simp
next
  case (Cons k0 ks)
  show ?case
  proof (cases "name k0 \<in> seen")
    case True
    with Cons.prems [unfolded remove_duplicates_Cons]
    have in_rest: "k \<in> set (remove_duplicates ks seen [])"
      by simp
    then have "name k \<in> set (map name (remove_duplicates ks seen []))" by force
    then have "name k \<notin> seen" unfolding remove_duplicates_names by simp
    with True have "name k0 \<noteq> name k" by auto
    with Cons.IH [OF in_rest] show ?thesis by simp
  next
    case False
    with Cons.prems [unfolded remove_duplicates_Cons]
    have disj: "k = k0 \<or> k \<in> set (remove_duplicates ks (insert (name k0) seen) [])"
      by simp
    show ?thesis
    proof (cases "k = k0")
      case True
      then show ?thesis by simp
    next
      case neq: False
      with disj have in_rest: "k \<in> set (remove_duplicates ks (insert (name k0) seen) [])" by simp
      then have "name k \<in> set (map name (remove_duplicates ks (insert (name k0) seen) []))" by force
      then have "name k \<noteq> name k0" unfolding remove_duplicates_names by auto
      with Cons.IH [OF in_rest] show ?thesis by simp
    qed
  qed
qed

text \<open>
  Claim C2. Whenever \<open>generate_kpis\<close> returns, the list it returns has no two
  descriptors of the same name; it is a subsequence of the concatenated output of the
  rule families, so the survivors keep their emission order; every name that was
  emitted survives; and each survivor is the first emitted descriptor of its name.
\<close>

theorem generate_kpis_deduplicated:
  assumes "generate_kpis L R sch df = Inr (kpis, printed)"
  shows "\<exists>emitted. all_kpis L R sch df = Inr (emitted, printed) \<and>
           distinct (map name kpis) \<and>
           subseq kpis emitted \<and>
           set (map name kpis) = set (map name emitted) \<and>
           (\<forall>k \<in> set kpis. find (\<lambda>x. name x = name k) emitted = Some k)"
proof -
  from assms obtain emitted where e: "all_kpis L R sch df = Inr (emitted, printed)"
    and k: "kpis = remove_duplicates emitted {} []"
    by (auto simp: generate_kpis_def split: sum.splits prod.splits)
  have "distinct (map name kpis)" unfolding k by (rule remove_duplicates_distinct)
  moreover have "subseq kpis emitted" unfolding k by (rule remove_duplicates_subseq)
  moreover have "set (map name kpis) = set (map name emitted)"
    unfolding k remove_duplicates_names by simp
  moreover have "\<forall>k \<in> set kpis. find (\<lambda>x. name x = name k) emitted = Some k"
    unfolding k using remove_duplicates_first by blast
  ultimately show ?thesis using e by blast
qed

lemma families_one_row:
  "generate_aggregation_kpis empty_schema one_row = [total_records_kpi]"
  "generate_time_series_kpis L empty_schema one_row = []"
  "generate_category_breakdown_kpis empty_schema one_row = []"
  "generate_conversion_kpis L empty_schema one_row = Inr []"
  "generate_advanced_kpis L empty_schema one_row = Inr []"
  "detect_anomalies_kpis L one_row empty_schema = Inr []"
  by (simp_all add: generate_aggregation_kpis_def generate_time_series_kpis_def
      generate_category_breakdown_kpis_def generate_conversion_kpis_def
      generate_advanced_kpis_def detect_anomalies_kpis_def empty_schema_def one_row_def)

lemma all_kpis_echoing:
  "all_kpis example_lib echoing_rules empty_schema one_row
     = Inr ([total_records_kpi, total_records_kpi\<lparr>category := ''pattern_detection''\<rparr>], [])"
  by (simp add: all_kpis_def families_one_row generate_creative_kpis_def echoing_rules_def)

lemma generate_kpis_echoing:
  "generate_kpis example_lib echoing_rules empty_schema one_row = Inr ([total_records_kpi], [])"
  by (simp add: generate_kpis_def all_kpis_echoing total_records_kpi_def)

text \<open>
  A creative rule that emits a second descriptor named \<open>Total Records\<close>: the one of
  the aggregation family, emitted first, is the one kept.
\<close>

theorem generate_kpis_deduplicated_witness:
  "all_kpis example_lib echoing_rules empty_schema one_row
     = Inr ([total_records_kpi, total_records_kpi\<lparr>category := ''pattern_detection''\<rparr>], []) \<and>
   generate_kpis example_lib echoing_rules empty_schema one_row = Inr ([total_records_kpi], []) \<and>
   distinct (map name [total_records_kpi]) \<and>
   find (\<lambda>x. name x = name total_records_kpi)
     [total_records_kpi, total_records_kpi\<lparr>category := ''pattern_detection''\<rparr>]
     = Some total_records_kpi"
  using generate_kpis_deduplicated [OF generate_kpis_echoing] all_kpis_echoing generate_kpis_echoing
  by auto

subsection \<open>A table with no rows\<close>

text \<open>
  Claim C3 fails on the code. In a table with no rows, the classification of an
  \<open>int64\<close> column whose name gives no hint divides by \<open>len(df) = 0\<close> and raises
  \<open>ZeroDivisionError\<close>: line 93 has no \<open>max(len(df), 1)\<close>. The \<open>object\<close> column of
  the same table, whose ratio line 115 guards, is classified.
\<close>

theorem zero_rows_integer_column_raises:
  "infer_column_type L no_rows ''x'' = Inl ZeroDivisionError \<and>
   infer_column_type L no_rows ''y'' = Inr ''categorical''"
  by (simp add: infer_column_type_def names_x names_y classify_dtype_def classify_object_def
      getitem_def no_rows_def is_numeric_dtype_def is_datetime64_any_dtype_def
      is_string_dtype_def nunique_def unique_def mean_def nan_less_def nan_greater_def)

subsection \<open>The granularity of four dates in four years\<close>

text \<open>
  Counterexample to claim C4 as stated: the four dates of \<open>yearly\<close> lie in the years 2019 to 2022,
  the name \<open>closing_date\<close> has no \<open>year\<close> in it, and the granularity is \<open>day\<close>; the
  descriptors for \<open>revenue\<close> are per day and per month, none per year.
\<close>

theorem four_years_counterexample:
  "to_datetime_coerce example_lib Datetime64
     (dropna (cells \<lparr>sname = ''closing_date'', dtype = Datetime64,
          cells = [Some (TimeV (Timestamp 2019 12 31 0)), Some (TimeV (Timestamp 2020 12 31 0)),
                   Some (TimeV (Timestamp 2021 12 31 0)), Some (TimeV (Timestamp 2022 12 31 0))]\<rparr>))
     = Inr [Some (Timestamp 2019 12 31 0), Some (Timestamp 2020 12 31 0),
            Some (Timestamp 2021 12 31 0), Some (Timestamp 2022 12 31 0)] \<and>
   detect_time_granularity example_lib yearly ''closing_date'' = ''day'' \<and>
   map name (generate_time_series_kpis example_lib yearly_schema yearly)
     = [''Revenue per Day'', ''Revenue per Month''] \<and>
   map subcategory (generate_time_series_kpis example_lib yearly_schema yearly)
     = [''daily'', ''monthly'']"
proof -
  have s: "sample_dates_of example_lib yearly ''closing_date''
             = Inr [Timestamp 2019 12 31 0, Timestamp 2020 12 31 0, Timestamp 2021 12 31 0,
                    Timestamp 2022 12 31 0]"
    by (simp add: sample_dates_of_def getitem_yearly coerce_yearly)
  have g: "detect_time_granularity example_lib yearly ''closing_date'' = ''day''"
    unfolding detect_time_granularity_def Let_def s
    using closing_date_no_year
    by (simp add: yearly_def unique_def ts_date_def)
  have "generate_time_series_kpis example_lib yearly_schema yearly
     = [per_day_kpi ''revenue'' ''closing_date'', per_month_kpi ''month.'' ''revenue'' ''closing_date'']"
    by (simp add: generate_time_series_kpis_def yearly_schema_def g numeric_time_series_def)
  then show ?thesis using g coerce_yearly [of example_lib]
    by (simp add: kpi_eval string_eval)
qed

text \<open>
  Claim C4, amended. For a table of four rows whose first datetime column holds four
  values that \<open>pd.to_datetime\<close> converts to dates in four different calendar years,
  and whose name has no \<open>year\<close> in it, the time-series family infers the granularity
  \<open>day\<close> (there are more than two distinct years and days, and four distinct days are
  not fewer than a tenth of four): for each numeric column it emits the per-day and the
  per-month descriptor, and for the first identifier column the per-day count.
\<close>

theorem four_years_daily:
  assumes "datetime_columns sch = datetime_col # others"
    and "\<not> contains ''year'' (lower datetime_col)"
    and "getitem df datetime_col = Inr s"
    and "cells s = [Some v1, Some v2, Some v3, Some v4]"
    and "to_datetime_coerce L (dtype s) [v1, v2, v3, v4] = Inr [Some t1, Some t2, Some t3, Some t4]"
    and "distinct [ts_year t1, ts_year t2, ts_year t3, ts_year t4]"
  shows "detect_time_granularity L df datetime_col = ''day'' \<and>
         generate_time_series_kpis L sch df =
           concat (map (\<lambda>num_col. [per_day_kpi num_col datetime_col,
                                    per_month_kpi ''month.'' num_col datetime_col])
                     (numeric_columns sch))
           @ map (id_time_series ''day'' datetime_col) (take 1 (id_columns sch))"
proof -
  have sample: "sample_dates_of L df datetime_col = Inr [t1, t2, t3, t4]"
    using assms(3-5) by (simp add: sample_dates_of_def)
  have years: "unique (map ts_year [t1, t2, t3, t4]) = map ts_year [t1, t2, t3, t4]"
    using assms(6) by (intro unique_distinct) simp
  have "distinct (map ts_date [t1, t2, t3, t4])"
    using assms(6) by (auto simp: ts_date_def)
  then have days: "unique (map ts_date [t1, t2, t3, t4]) = map ts_date [t1, t2, t3, t4]"
    by (rule unique_distinct)
  have g: "detect_time_granularity L df datetime_col = ''day''"
    unfolding detect_time_granularity_def Let_def sample
    using assms(2) getitem_column [OF assms(3)] years days by simp
  have "numeric_time_series ''day'' datetime_col
          = (\<lambda>num_col. [per_day_kpi num_col datetime_col, per_month_kpi ''month.'' num_col datetime_col])"
    by (rule ext) (simp add: numeric_time_series_def)
  with g show ?thesis using assms(1) by (simp add: generate_time_series_kpis_def)
qed

text \<open>
  The amended claim at the table \<open>yearly\<close>.
\<close>

theorem four_years_daily_witness:
  "detect_time_granularity example_lib yearly ''closing_date'' = ''day'' \<and>
   generate_time_series_kpis example_lib yearly_schema yearly
     = [per_day_kpi ''revenue'' ''closing_date'', per_month_kpi ''month.'' ''revenue'' ''closing_date'']"
  using four_years_daily [of yearly_schema "''closing_date''" "[]", OF _ closing_date_no_year getitem_yearly,
      of "TimeV (Timestamp 2019 12 31 0)" "TimeV (Timestamp 2020 12 31 0)"
         "TimeV (Timestamp 2021 12 31 0)" "TimeV (Timestamp 2022 12 31 0)" example_lib
         "Timestamp 2019 12 31 0" "Timestamp 2020 12 31 0" "Timestamp 2021 12 31 0" "Timestamp 2022 12 31 0"]
    coerce_yearly [of example_lib]
  by (simp add: yearly_schema_def)

subsection \<open>Ratios and a column of zeros\<close>

lemma zeros_numbers:
  "\<forall>v \<in> set cs. v = Some (NumV 0) \<Longrightarrow>
     \<exists>xs. numbers_of (dropna cs) = Some xs \<and> list_all (\<lambda>x. x = 0) xs"
proof (induction cs)
  case Nil
  show ?case by simp
next
  case (Cons v cs)
  then obtain xs where "numbers_of (dropna cs) = Some xs" "list_all (\<lambda>x. x = 0) xs" by auto
  moreover from Cons.prems have "v = Some (NumV 0)" by simp
  ultimately show ?case by simp
qed

lemma sum_numbers_zeros:
  assumes "list_all (\<lambda>x. x = 0) xs"
  shows "sum_numbers L d xs = 0"
proof -
  from assms have "sum_list (map floor xs) = 0"
    by (induction xs) simp_all
  with assms show ?thesis by (simp add: sum_numbers_def wrap_int64_def wrap_uint64_def)
qed

lemma zeros_sum_nonzero:
  assumes "getitem df A = Inr s" and "\<forall>v \<in> set (cells s). v = Some (NumV 0)"
  shows "sum_nonzero L df A = Inr False"
proof -
  from zeros_numbers [OF assms(2)] obtain xs
    where "numbers_of (dropna (cells s)) = Some xs" "list_all (\<lambda>x. x = 0) xs" by blast
  then show ?thesis using assms(1)
    by (simp add: sum_nonzero_def series_sum_def sum_numbers_zeros)
qed

lemma ratios_with_elem:
  "ratios_with L df col1 rest = Inr ks \<Longrightarrow> k \<in> set ks \<Longrightarrow>
     sum_nonzero L df col1 = Inr True \<and> (\<exists>col2 \<in> set rest. k = ratio_kpi col1 col2)"
proof (induction rest arbitrary: ks)
  case Nil
  then show ?case by simp
next
  case (Cons col2 rest)
  from Cons.prems(1) obtain nonzero ks' where nz: "sum_nonzero L df col1 = Inr nonzero"
    and rec: "ratios_with L df col1 rest = Inr ks'"
    and ks: "ks = (if nonzero then [ratio_kpi col1 col2] else []) @ ks'"
    by (auto split: sum.splits)
  show ?case
  proof (cases "k \<in> set ks'")
    case True
    from Cons.IH [OF rec True] show ?thesis by auto
  next
    case False
    with Cons.prems(2) ks have "nonzero" "k = ratio_kpi col1 col2" by (auto split: if_splits)
    with nz show ?thesis by simp
  qed
qed

lemma ratio_kpis_elem:
  "ratio_kpis L df cols = Inr ks \<Longrightarrow> k \<in> set ks \<Longrightarrow>
     \<exists>col1 col2. k = ratio_kpi col1 col2 \<and> sum_nonzero L df col1 = Inr True"
proof (induction cols arbitrary: ks)
  case Nil
  then show ?case by simp
next
  case (Cons col1 rest)
  from Cons.prems(1) obtain ks1 ks2 where a: "ratios_with L df col1 rest = Inr ks1"
    and b: "ratio_kpis L df rest = Inr ks2" and ks: "ks = ks1 @ ks2"
    by (auto split: sum.splits)
  from Cons.prems(2) ks consider "k \<in> set ks1" | "k \<in> set ks2" by auto
  then show ?case
  proof cases
    case 1
    from ratios_with_elem [OF a 1] show ?thesis by blast
  next
    case 2
    from Cons.IH [OF b 2] show ?thesis .
  qed
qed

lemma ratios_with_present:
  "ratios_with L df col1 rest = Inr ks \<Longrightarrow> sum_nonzero L df col1 = Inr True \<Longrightarrow> col2 \<in> set rest \<Longrightarrow>
     ratio_kpi col1 col2 \<in> set ks"
  by (induction rest arbitrary: ks) (auto split: sum.splits)

lemma ratio_kpis_present:
  "ratio_kpis L df (pre @ col1 # rest) = Inr ks \<Longrightarrow> sum_nonzero L df col1 = Inr True \<Longrightarrow>
     col2 \<in> set rest \<Longrightarrow> ratio_kpi col1 col2 \<in> set ks"
proof (induction pre arbitrary: ks)
  case Nil
  then show ?case by (auto split: sum.splits dest: ratios_with_present)
next
  case (Cons p pre)
  then show ?case by (auto split: sum.splits)
qed

lemma category_percentile: "k \<in> set (concat (map percentile_kpis cols)) \<Longrightarrow> category k = ''statistical''"
  by (auto simp: percentile_kpis_def median_kpi_def percentile_kpi_def)

lemma category_growth: "k \<in> set (map (growth_kpi d) cols) \<Longrightarrow> category k = ''growth''"
  by (auto simp: growth_kpi_def)

lemma sum_nonzero_zero_second:
  "sum_nonzero L zero_second ''b'' = Inr True"
  "sum_nonzero L zero_second ''a'' = Inr False"
  by (simp_all add: sum_nonzero_def getitem_zero_second series_sum_def sum_numbers_def
      wrap_int64_def numbers_def)

lemma advanced_zero_second:
  "generate_advanced_kpis L zero_second_schema zero_second
     = Inr (percentile_kpis ''b'' @ percentile_kpis ''a'' @ [ratio_kpi ''b'' ''a''])"
  by (simp add: generate_advanced_kpis_def zero_second_schema_def sum_nonzero_zero_second)

text \<open>
  The guard reads the sum that pandas computes, not the exact one: the three \<open>int64\<close>
  values of the column \<open>b\<close> of \<open>wrapping\<close> add up to \<open>2 ^ 64\<close>, their sum wraps to 0,
  and no ratio with \<open>b\<close> as denominator is emitted.
\<close>

lemma sum_nonzero_wrapping:
  "sum_nonzero L wrapping ''b'' = Inr False"
  by (simp add: sum_nonzero_def getitem_wrapping series_sum_def sum_numbers_def
      wrap_int64_def numbers_def)

lemma advanced_wrapping:
  "generate_advanced_kpis L zero_second_schema wrapping
     = Inr (percentile_kpis ''b'' @ percentile_kpis ''a'')"
  by (simp add: generate_advanced_kpis_def zero_second_schema_def sum_nonzero_wrapping)

text \<open>
  Counterexample to claim C5 as stated: in \<open>zero_second\<close> the \<open>int64\<close> column \<open>a\<close> is zero
  throughout and follows \<open>b\<close> in the numeric column list; the ratio descriptor of the
  pair is emitted, with \<open>b\<close> as denominator, because the guard reads the sum of \<open>b\<close>.
\<close>

theorem zero_column_counterexample:
  "cells \<lparr>sname = ''a'', dtype = Int64, cells = numbers [0, 0]\<rparr> = [Some (NumV 0), Some (NumV 0)] \<and>
   getitem zero_second ''a'' = Inr \<lparr>sname = ''a'', dtype = Int64, cells = numbers [0, 0]\<rparr> \<and>
   generate_advanced_kpis example_lib zero_second_schema zero_second
     = Inr (percentile_kpis ''b'' @ percentile_kpis ''a'' @ [ratio_kpi ''b'' ''a'']) \<and>
   name (ratio_kpi ''b'' ''a'') = ''A to B Ratio'' \<and>
   category (ratio_kpi ''b'' ''a'') = ''ratio'' \<and>
   columns_used (ratio_kpi ''b'' ''a'') = [''b'', ''a'']"
  by (simp add: getitem_zero_second advanced_zero_second)
     (simp add: ratio_kpi_def numbers_def string_eval)

text \<open>
  Claim C5, amended. Let every value of the column \<open>A\<close> be zero and let
  \<open>generate_advanced_kpis\<close> return. Then no ratio descriptor has \<open>A\<close> as its
  denominator: every ratio descriptor is the one of a pair whose first column is not
  \<open>A\<close>, so none uses the columns \<open>[A, B]\<close>. The order of the columns matters: for a
  column \<open>B\<close> that precedes \<open>A\<close> in the numeric column list and for which the guard
  \<open>df[B].sum() != 0\<close> holds, with the sum as pandas computes it (in \<open>int64\<close> with
  wrap-around for integer and boolean storage, in \<open>float64\<close> otherwise), the ratio of
  \<open>A\<close> to \<open>B\<close> is emitted.
\<close>

theorem zero_column_never_denominator:
  assumes "generate_advanced_kpis L sch df = Inr ks"
    and "getitem df A = Inr s"
    and "\<forall>v \<in> set (cells s). v = Some (NumV 0)"
  shows "(\<forall>k \<in> set ks. category k = ''ratio'' \<longrightarrow>
            (\<exists>col1 col2. k = ratio_kpi col1 col2 \<and> col1 \<noteq> A) \<and>
            map_of (extras k) ''denominator'' \<noteq> Some (S A) \<and>
            (\<forall>B. columns_used k \<noteq> [A, B])) \<and>
         (\<forall>pre B rest. numeric_columns sch = pre @ B # rest \<and> A \<in> set rest
                        \<and> sum_nonzero L df B = Inr True
            \<longrightarrow> ratio_kpi B A \<in> set ks)"
proof -
  let ?cols = "numeric_columns sch"
  from assms(1) obtain ratios where
    r: "(if length ?cols \<ge> 2 then ratio_kpis L df ?cols else Inr []) = Inr ratios"
    and ks: "ks = concat (map percentile_kpis ?cols) @ ratios
               @ (if datetime_columns sch \<noteq> [] \<and> ?cols \<noteq> []
                  then map (growth_kpi (hd (datetime_columns sch))) (take 2 ?cols) else [])"
    by (auto simp: generate_advanced_kpis_def Let_def split: sum.splits)
  have zero: "sum_nonzero L df A = Inr False" using assms(2,3) by (rule zeros_sum_nonzero)
  have first: "(\<exists>col1 col2. k = ratio_kpi col1 col2 \<and> col1 \<noteq> A) \<and>
            map_of (extras k) ''denominator'' \<noteq> Some (S A) \<and>
            (\<forall>B. columns_used k \<noteq> [A, B])"
    if k: "k \<in> set ks" and cat: "category k = ''ratio''" for k
  proof -
    have "k \<notin> set (concat (map percentile_kpis ?cols))"
      using category_percentile [of k ?cols] cat by auto
    moreover have "k \<notin> set (map (growth_kpi (hd (datetime_columns sch))) (take 2 ?cols))"
      using category_growth [of k "hd (datetime_columns sch)" "take 2 ?cols"] cat by auto
    ultimately have "k \<in> set ratios"
      using k unfolding ks by (simp split: if_splits)
    with r have "length ?cols \<ge> 2" and "ratio_kpis L df ?cols = Inr ratios"
      by (auto split: if_splits)
    from ratio_kpis_elem [OF this(2) \<open>k \<in> set ratios\<close>] obtain col1 col2
      where k_eq: "k = ratio_kpi col1 col2" and nz: "sum_nonzero L df col1 = Inr True" by blast
    from nz zero have "col1 \<noteq> A" by auto
    with k_eq show ?thesis by (auto simp: ratio_kpi_def)
  qed
  have second: "ratio_kpi B A \<in> set ks"
    if "numeric_columns sch = pre @ B # rest" "A \<in> set rest" "sum_nonzero L df B = Inr True"
    for pre B rest
  proof -
    from that(1,2) have "length ?cols \<ge> 2" by (cases rest) auto
    with r have "ratio_kpis L df (pre @ B # rest) = Inr ratios" using that(1) by simp
    from ratio_kpis_present [OF this that(3,2)] show ?thesis using ks by simp
  qed
  from first second show ?thesis by blast
qed

text \<open>
  The amended claim at the table \<open>zero_second\<close>.
\<close>

theorem zero_column_never_denominator_witness:
  "generate_advanced_kpis example_lib zero_second_schema zero_second
     = Inr (percentile_kpis ''b'' @ percentile_kpis ''a'' @ [ratio_kpi ''b'' ''a'']) \<and>
   sum_nonzero example_lib zero_second ''b'' = Inr True \<and>
   ratio_kpi ''b'' ''a'' \<in> set (percentile_kpis ''b'' @ percentile_kpis ''a'' @ [ratio_kpi ''b'' ''a''])
   \<and> \<not> (\<exists>k \<in> set (percentile_kpis ''b'' @ percentile_kpis ''a'' @ [ratio_kpi ''b'' ''a'']).
            category k = ''ratio'' \<and> columns_used k = [''a'', ''b''])"
proof -
  have zeros: "\<forall>v \<in> set (cells \<lparr>sname = ''a'', dtype = Int64, cells = numbers [0, 0]\<rparr>). v = Some (NumV 0)"
    by (simp add: numbers_def)
  note T = zero_column_never_denominator [OF advanced_zero_second getitem_zero_second(1) zeros,
      of example_lib]
  have "\<not> (\<exists>k \<in> set (percentile_kpis ''b'' @ percentile_kpis ''a'' @ [ratio_kpi ''b'' ''a'']).
            category k = ''ratio'' \<and> columns_used k = [''a'', ''b''])"
    using T by fastforce
  then show ?thesis
    using advanced_zero_second [of example_lib] sum_nonzero_zero_second(1) [of example_lib]
    by simp
qed

subsection \<open>The threshold of the IQR rule\<close>


lemma anomalies_for_raises:
  assumes "\<not> anomaly_calls_return L df col"
  shows "\<exists>e. anomalies_for L df col = Inl e"
  using assms
  by (auto simp: anomaly_calls_return_def anomalies_for_def numeric_data_def Let_def
      split: sum.splits option.splits)

text \<open>
  Where one of those calls raises for a numeric column, the rule raises.
\<close>

lemma detect_anomalies_raises:
  assumes "col \<in> set (numeric_columns sch)" and "\<not> anomaly_calls_return L df col"
  shows "\<exists>e. detect_anomalies_kpis L df sch = Inl e"
proof -
  from anomalies_for_raises [OF assms(2)] obtain e where "anomalies_for L df col = Inl e" ..
  from concat_results_fails [of col "numeric_columns sch" "anomalies_for L df" e, OF assms(1) this]
  show ?thesis
    by (simp add: detect_anomalies_kpis_def)
qed



lemma quantiles_two_off:
  "linear_quantile (1 / 4) two_off = Some 0" "linear_quantile (3 / 4) two_off = Some 0"
  by (simp_all add: linear_quantile_def two_off_def Let_def)


lemma outliers_two_off: "iqr_outliers example_lib (Some 0) (Some 0) two_off = 2"
  by (simp add: iqr_outliers_def example_lib_fields) (simp add: two_off_def)

lemma numeric_data_twenty:
  "numeric_data \<lparr>sname = ''x'', dtype = d, cells = numbers xs\<rparr> = Inr xs"
  by (simp add: numeric_data_def numbers_of_numbers)

lemma sqrt_facts: "sqrt 900 = 30" "sqrt 475 < 95 / 3" "5 / 3 < sqrt 475"
proof -
  have "sqrt 900 = sqrt (30\<^sup>2)" by simp
  then show "sqrt 900 = 30" by (simp only: real_sqrt_abs)
  show "sqrt 475 < 95 / 3" by (rule real_less_lsqrt) (simp_all add: power2_eq_square)
  show "5 / 3 < sqrt 475" by (rule real_less_rsqrt) (simp add: power2_eq_square)
qed


lemma zscore_two_off:
  "length (filter (\<lambda>z. nan_greater (map_option abs z) 3) (population_zscore two_off)) = 0"
proof -
  have m: "mean two_off = Some 10" by (simp add: mean_def two_off_def)
  have v: "sum_list (map (\<lambda>x. (x - 10)\<^sup>2) two_off) / real (length two_off) = 900"
    by (simp add: two_off_def)
  show ?thesis
    unfolding population_zscore_def m v
    by (simp add: Let_def nan_greater_def two_off_def sqrt_facts(1))
qed

lemma calls_twenty:
  "zscore example_lib Float (dropna (numbers xs)) = Some (population_zscore xs)"
  "quantile example_lib Float q (dropna (numbers xs)) = Some (linear_quantile q xs)"
  by (simp_all add: example_lib_fields example_zscore_def example_quantile_def numbers_of_numbers)


lemma anomalies_two_off:
  "detect_anomalies_kpis example_lib (twenty Float two_off) x_schema
     = Inr [iqr_kpi example_lib ''x'' 2 10]"
proof -
  have n: "nrows (twenty Float two_off) = 20" "length two_off = 20"
    by (simp_all add: twenty_def two_off_def)
  show ?thesis
    by (simp add: detect_anomalies_kpis_def x_schema_def anomalies_for_def getitem_twenty
        numeric_data_twenty calls_twenty zscore_two_off length_dropna_numbers quantiles_two_off
        outliers_two_off outlier_percentage_def n)
qed



text \<open>
  A boolean column among the numeric columns: \<open>quantile\<close> raises on it, and so does the
  rule.
\<close>

lemma bool_column_raises:
  "detect_anomalies_kpis example_lib (twenty Bool xs) x_schema = Inl (TypeError ''quantile'')"
  by (simp add: detect_anomalies_kpis_def x_schema_def anomalies_for_def getitem_twenty
      example_lib_fields example_zscore_def example_quantile_def numbers_of_numbers)


subsection \<open>A date-like name over values that are no dates\<close>

lemma to_datetime_raise_time:
  assumes "list_all is_time cs"
  shows "\<exists>ts. to_datetime_raise L Datetime64 (take n (dropna cs)) = Inr ts"
proof -
  have "\<exists>t. v = TimeV t" if "v \<in> set (take n (dropna cs))" for v
  proof -
    from that have "v \<in> set (dropna cs)" by (rule in_set_takeD)
    then have "Some v \<in> set cs" by (simp add: set_dropna)
    with assms have "is_time (Some v)" by (simp add: list_all_iff)
    then show ?thesis by (cases v) (simp_all add: is_time_def)
  qed
  then have "\<exists>ts. timestamps_of (take n (dropna cs)) = Some ts"
    by (intro timestamps_of_time) blast
  then show ?thesis by (auto simp: to_datetime_raise_def native_timestamps_def)
qed

lemma classify_object_cases:
  "classify_object L df c s = ''categorical'' \<or> classify_object L df c s = ''text''"
  by (simp add: classify_object_def Let_def)

text \<open>
  Claim C7. Let the name of a column of a well-formed table match a datetime pattern
  and let the conversion of its first hundred non-null values raise; let the table have
  a row, or the storage of the column be none of the four integer types that line 93
  tests (in a table with no rows such a column meets the division of claim C3). Then
  \<open>infer_column_type\<close> returns (no exception escapes), the type it returns is not
  \<open>datetime\<close>, and, unless the name matches an identifier pattern, the type is the one
  the checks on the storage type give: for \<open>object\<close> and string storage it is
  \<open>categorical\<close> or \<open>text\<close>.
\<close>

theorem datetime_name_fallback:
  assumes "detect_column_pattern c DATETIME_PATTERNS"
    and "wf_dataframe df"
    and "nrows df > 0 \<or> dtype s \<notin> set [Int64, Int32, Int16, Int8]"
    and "getitem df c = Inr s"
    and "to_datetime_raise L (dtype s) (take 100 (dropna (cells s))) = Inl e"
  shows "\<exists>t. infer_column_type L df c = Inr t \<and> t \<noteq> ''datetime'' \<and>
           (\<not> detect_column_pattern c ID_PATTERNS \<longrightarrow>
              infer_column_type L df c = classify_dtype L df c s \<and>
              (dtype s = Object \<or> dtype s = StringDtype \<longrightarrow> t = ''categorical'' \<or> t = ''text''))"
proof -
  from assms(2,4) have wf: "wf_series (nrows df) s" by (rule wf_getitem)
  have not_native: "dtype s \<noteq> Datetime64"
  proof
    assume native: "dtype s = Datetime64"
    with wf have "list_all is_time (cells s)" by (simp add: wf_series_def)
    from to_datetime_raise_time [OF this, of L 100] assms(5) native show False by simp
  qed
  from assms(3) have rows: "dtype s \<in> set [Int64, Int32, Int16, Int8] \<longrightarrow> nrows df \<noteq> 0"
    by auto
  have no_try: "\<not> name_datetime_try L df c"
    using assms(4,5) by (simp add: name_datetime_try_def)
  have "\<exists>t. classify_dtype L df c s = Inr t \<and> t \<noteq> ''datetime'' \<and>
          (dtype s = Object \<or> dtype s = StringDtype \<longrightarrow> t = ''categorical'' \<or> t = ''text'')"
    using rows not_native assms(5) classify_object_cases [of L df c s]
    by (cases "dtype s") (auto simp: classify_dtype_def dtype_eval)
  then obtain t where t: "classify_dtype L df c s = Inr t" and nd: "t \<noteq> ''datetime''"
    and obj: "dtype s = Object \<or> dtype s = StringDtype \<longrightarrow> t = ''categorical'' \<or> t = ''text''"
    by blast
  show ?thesis
  proof (cases "detect_column_pattern c ID_PATTERNS")
    case True
    then show ?thesis by (simp add: infer_column_type_def)
  next
    case False
    then have "infer_column_type L df c = classify_dtype L df c s"
      using no_try assms(4) by (simp add: infer_column_type_def)
    with t nd obj False show ?thesis by simp
  qed
qed

text \<open>
  The column \<open>update_day\<close> holding \<open>apple\<close>, \<open>banana\<close>, \<open>cherry\<close>: the conversion
  raises, and the column is a text column.
\<close>

theorem datetime_name_fallback_witness:
  "to_datetime_raise example_lib Object
     (take 100 (dropna (strings [''apple'', ''banana'', ''cherry''])))
     = Inl (TypeError ''to_datetime'') \<and>
   infer_column_type example_lib fruit ''update_day'' = Inr ''text''"
proof -
  have "infer_column_type example_lib fruit ''update_day''
          = classify_dtype example_lib fruit ''update_day''
              \<lparr>sname = ''update_day'', dtype = Object, cells = strings [''apple'', ''banana'', ''cherry'']\<rparr>"
    using datetime_name_fallback
      [OF names_update_day(2) wf_fruit disjI1 [OF nrows_fruit] getitem_fruit(1), of example_lib]
      fruit_unparsed names_update_day(1) by auto
  also have "\<dots> = Inr ''text''"
    using fruit_unparsed
    by (simp add: classify_dtype_def classify_object_def dtype_eval names_update_day nunique_def
        unique_def mean_def nan_less_def nan_greater_def str_of_def strings_def fruit_def)
  finally show ?thesis using fruit_unparsed by simp
qed

subsection \<open>The numeric surrogate key\<close>

text \<open>
  Counterexample to claim C8 as stated: twenty \<open>int64\<close> values of which nineteen are distinct are
  unique to exactly 95 percent, and the column \<open>x\<close> is classified \<open>numeric\<close>; so are
  twenty distinct values of unsigned integer storage, which the list of types in the
  code does not name.
\<close>

theorem identifier_override_counterexample:
  "\<not> detect_column_pattern ''x'' ID_PATTERNS \<and>
   \<not> detect_column_pattern ''x'' DATETIME_PATTERNS \<and>
   getitem (twenty Int64 nineteen_distinct) ''x''
     = Inr \<lparr>sname = ''x'', dtype = Int64, cells = numbers nineteen_distinct\<rparr> \<and>
   real (nunique (numbers nineteen_distinct)) / real (nrows (twenty Int64 nineteen_distinct)) \<ge> 0.95 \<and>
   infer_column_type example_lib (twenty Int64 nineteen_distinct) ''x'' = Inr ''numeric'' \<and>
   real (nunique (numbers twenty_distinct)) / real (nrows (twenty UInt twenty_distinct)) \<ge> 0.95 \<and>
   infer_column_type example_lib (twenty UInt twenty_distinct) ''x'' = Inr ''numeric''"
  by (simp add: names_x getitem_twenty nunique_nineteen nunique_twenty infer_column_type_def
      classify_dtype_def is_numeric_dtype_def) (simp add: twenty_def)

text \<open>
  Claim C8, amended. A column of storage type \<open>int8\<close>, \<open>int16\<close>, \<open>int32\<close> or \<open>int64\<close>
  whose name matches neither an identifier nor a datetime pattern is classified \<open>id\<close>
  when more than 95 percent of its values are unique, and \<open>numeric\<close> when the table has
  rows and at most 95 percent are.
\<close>

theorem identifier_override:
  assumes "\<not> detect_column_pattern c ID_PATTERNS"
    and "\<not> detect_column_pattern c DATETIME_PATTERNS"
    and "getitem df c = Inr s"
    and "dtype s \<in> {Int8, Int16, Int32, Int64}"
  shows "(real (nunique (cells s)) / real (nrows df) > 0.95
            \<longrightarrow> infer_column_type L df c = Inr ''id'') \<and>
         (nrows df > 0 \<and> real (nunique (cells s)) / real (nrows df) \<le> 0.95
            \<longrightarrow> infer_column_type L df c = Inr ''numeric'')"
  using assms
  by (auto simp: infer_column_type_def classify_dtype_def is_numeric_dtype_def)

text \<open>
  Twenty distinct \<open>int64\<close> values under the name \<open>x\<close> make an identifier.
\<close>

theorem identifier_override_witness:
  "infer_column_type example_lib (twenty Int64 twenty_distinct) ''x'' = Inr ''id'' \<and>
   real (nunique (numbers twenty_distinct)) / real (nrows (twenty Int64 twenty_distinct)) > 0.95"
proof -
  have r: "real (nunique (numbers twenty_distinct)) / real (nrows (twenty Int64 twenty_distinct)) > 0.95"
    by (simp add: nunique_twenty twenty_def)
  have "real (nunique (cells \<lparr>sname = ''x'', dtype = Int64, cells = numbers twenty_distinct\<rparr>))
          / real (nrows (twenty Int64 twenty_distinct)) > 0.95
        \<longrightarrow> infer_column_type example_lib (twenty Int64 twenty_distinct) ''x'' = Inr ''id''"
    using identifier_override [OF names_x getitem_twenty, of Int64 twenty_distinct example_lib]
    by simp
  with r show ?thesis by simp
qed

subsection \<open>A failure of the creative rules\<close>

lemma concat_results_raises:
  "Inl e \<in> set rs \<Longrightarrow> \<exists>e'. Inl e' \<in> set rs \<and> concat_results rs = Inl e'"
proof (induction rs)
  case Nil
  then show ?case by simp
next
  case (Cons r rs)
  show ?case
  proof (cases r)
    case (Inl e0)
    then show ?thesis by auto
  next
    case (Inr xs)
    with Cons.prems have "Inl e \<in> set rs" by auto
    from Cons.IH [OF this] obtain e' where "Inl e' \<in> set rs" "concat_results rs = Inl e'"
      by blast
    with Inr show ?thesis by auto
  qed
qed

text \<open>
  Claim C9. If one of the five creative rules raises and the conversion and the
  advanced family return, then the creative family raises and \<open>generate_kpis\<close>
  returns all the same: its list is the concatenation of the descriptors of the five
  families of \<open>kpi_rules.py\<close> with the duplicates removed, the creative rules
  contribute nothing to it, and it has printed one warning with the text of the
  exception.
\<close>

theorem creative_failure_is_contained:
  assumes "Inl e \<in> set [detect_anomalies_kpis L df sch, detect_seasonality_kpis R df sch,
                         generate_comparative_kpis R df sch,
                         detect_distribution_patterns_kpis R df sch,
                         detect_trend_breakpoints_kpis R df sch]"
    and "generate_conversion_kpis L sch df = Inr conversion"
    and "generate_advanced_kpis L sch df = Inr advanced"
  shows "\<exists>e'. generate_creative_kpis L R df sch = Inl e' \<and>
           generate_kpis L R sch df =
             Inr (remove_duplicates
                    (generate_aggregation_kpis sch df @ generate_time_series_kpis L sch df
                       @ generate_category_breakdown_kpis sch df @ conversion @ advanced) {} [],
                  [''Warning: Could not generate creative KPIs: '' @ exc_str L e'])"
proof -
  from concat_results_raises [OF assms(1)] obtain e'
    where "generate_creative_kpis L R df sch = Inl e'"
    by (auto simp: generate_creative_kpis_def)
  then show ?thesis using assms(2,3) by (simp add: generate_kpis_def all_kpis_def)
qed

lemma families_twenty:
  "generate_aggregation_kpis x_schema (twenty d xs) = numeric_aggregations ''x'' @ [total_records_kpi]"
  "generate_time_series_kpis L x_schema (twenty d xs) = []"
  "generate_category_breakdown_kpis x_schema (twenty d xs) = []"
  "generate_conversion_kpis L x_schema (twenty d xs) = Inr []"
  "generate_advanced_kpis L x_schema (twenty d xs) = Inr (percentile_kpis ''x'')"
  by (simp_all add: generate_aggregation_kpis_def generate_time_series_kpis_def
      generate_category_breakdown_kpis_def generate_conversion_kpis_def
      generate_advanced_kpis_def x_schema_def twenty_def)

lemma pretty_x: "pretty ''x'' = ''X''"
  by (simp add: string_eval)

lemma names_twenty:
  "map name (numeric_aggregations ''x'' @ [total_records_kpi] @ percentile_kpis ''x'')
     = [''Total X'', ''Average X'', ''Minimum X'', ''Maximum X'', ''Total Records'', ''Median X'',
        ''25th Percentile of X'', ''75th Percentile of X'']"
  by (simp add: numeric_aggregations_def aggregation_kpi_def total_records_kpi_def
      percentile_kpis_def median_kpi_def percentile_kpi_def pretty_x)

lemma remove_duplicates_distinct_names:
  "distinct (map name ks) \<Longrightarrow> set (map name ks) \<inter> seen = {} \<Longrightarrow>
     remove_duplicates ks seen acc = acc @ ks"
  by (induction ks arbitrary: seen acc) auto

lemma seasonality_failing:
  "detect_seasonality_kpis failing_rules df sch = Inl (RuleError ''seasonality'')"
  by (simp add: failing_rules_def)

text \<open>
  The anomaly rule emits an outlier descriptor, the seasonality rule then raises: the
  result holds the descriptors of the aggregation and the advanced family only.
\<close>

theorem creative_failure_is_contained_witness:
  "detect_anomalies_kpis example_lib (twenty Float two_off) x_schema
     = Inr [iqr_kpi example_lib ''x'' 2 10] \<and>
   detect_seasonality_kpis failing_rules (twenty Float two_off) x_schema
     = Inl (RuleError ''seasonality'') \<and>
   generate_kpis example_lib failing_rules x_schema (twenty Float two_off)
     = Inr (numeric_aggregations ''x'' @ [total_records_kpi] @ percentile_kpis ''x'',
            [''Warning: Could not generate creative KPIs: seasonality''])"
proof -
  let ?df = "twenty Float two_off"
  have raised: "Inl (RuleError ''seasonality'')
      \<in> set [detect_anomalies_kpis example_lib ?df x_schema,
              detect_seasonality_kpis failing_rules ?df x_schema,
              generate_comparative_kpis failing_rules ?df x_schema,
              detect_distribution_patterns_kpis failing_rules ?df x_schema,
              detect_trend_breakpoints_kpis failing_rules ?df x_schema]"
    by (simp add: seasonality_failing)
  have creative: "generate_creative_kpis example_lib failing_rules ?df x_schema
      = Inl (RuleError ''seasonality'')"
    by (simp add: generate_creative_kpis_def anomalies_two_off seasonality_failing)
  have dedup: "remove_duplicates
      (numeric_aggregations ''x'' @ [total_records_kpi] @ percentile_kpis ''x'') {} []
      = numeric_aggregations ''x'' @ [total_records_kpi] @ percentile_kpis ''x''"
    using remove_duplicates_distinct_names
      [of "numeric_aggregations ''x'' @ [total_records_kpi] @ percentile_kpis ''x''" "{}" "[]"]
    by (simp only: names_twenty) simp
  from creative_failure_is_contained [OF raised families_twenty(4) families_twenty(5)] creative
  have "generate_kpis example_lib failing_rules x_schema ?df
      = Inr (remove_duplicates
               (numeric_aggregations ''x'' @ [total_records_kpi] @ percentile_kpis ''x'') {} [],
             [''Warning: Could not generate creative KPIs: '' @ exc_str example_lib (RuleError ''seasonality'')])"
    by (simp add: families_twenty)
  moreover have "exc_str example_lib (RuleError ''seasonality'') = ''seasonality''"
    by (simp add: example_lib_def example_exc_str_def)
  ultimately show ?thesis
    using dedup anomalies_two_off seasonality_failing [of "twenty Float two_off" x_schema]
    by simp
qed

subsection \<open>Columns of nulls\<close>

text \<open>
  Counterexample to claim C10 as stated: the name \<open>date_key\<close> matches a datetime pattern, all
  values of the column are null, and the column is classified \<open>id\<close>, since the
  identifier patterns are tried first. And the boolean column \<open>updated\<close> of a table
  with no rows, all of whose (zero) values are null, is classified \<open>numeric\<close>:
  \<open>pd.to_datetime\<close> rejects boolean storage, also for an empty sample.
\<close>

theorem all_null_datetime_name_counterexample:
  "detect_column_pattern ''date_key'' DATETIME_PATTERNS \<and>
   getitem fruit ''date_key'' = Inr \<lparr>sname = ''date_key'', dtype = Object, cells = [None, None, None]\<rparr> \<and>
   infer_column_type example_lib fruit ''date_key'' = Inr ''id'' \<and>
   detect_column_pattern ''updated'' DATETIME_PATTERNS \<and>
   getitem flags ''updated'' = Inr \<lparr>sname = ''updated'', dtype = Bool, cells = []\<rparr> \<and>
   to_datetime_raise example_lib Bool [] = Inl (TypeError ''to_datetime'') \<and>
   infer_column_type example_lib flags ''updated'' = Inr ''numeric''"
  by (simp add: names_date_key getitem_fruit names_updated getitem_flags empty_sample_example
      infer_column_type_def name_datetime_try_def classify_dtype_def dtype_eval)

text \<open>
  Claim C10, amended. A column all of whose values are null is classified \<open>datetime\<close>
  when its name matches a datetime pattern and no identifier pattern and
  \<open>pd.to_datetime\<close> accepts its storage type, so that the conversion of the empty
  sample returns; when the conversion of the empty sample raises, the checks on the
  storage type decide. When its name matches no datetime pattern and its storage is
  \<open>object\<close>, it is not classified \<open>datetime\<close>: the check on the storage converts only
  a sample that is not empty.
\<close>

theorem all_null_columns:
  assumes "getitem df c = Inr s"
    and "list_all (\<lambda>v. v = None) (cells s)"
  shows "(detect_column_pattern c DATETIME_PATTERNS \<and> \<not> detect_column_pattern c ID_PATTERNS
            \<and> (\<exists>ts. to_datetime_raise L (dtype s) [] = Inr ts)
            \<longrightarrow> infer_column_type L df c = Inr ''datetime'') \<and>
         (detect_column_pattern c DATETIME_PATTERNS \<and> \<not> detect_column_pattern c ID_PATTERNS
            \<and> (\<exists>e. to_datetime_raise L (dtype s) [] = Inl e)
            \<longrightarrow> infer_column_type L df c = classify_dtype L df c s) \<and>
         (\<not> detect_column_pattern c DATETIME_PATTERNS \<and> dtype s = Object
            \<longrightarrow> (\<exists>t. infer_column_type L df c = Inr t \<and> t \<noteq> ''datetime''))"
proof -
  from assms(2) have empty: "dropna (cells s) = []" by (rule dropna_all_null)
  have tried: "name_datetime_try L df c = (\<exists>ts. to_datetime_raise L (dtype s) [] = Inr ts)"
    using assms(1) empty by (auto simp: name_datetime_try_def split: sum.splits)
  have "\<exists>t. classify_dtype L df c s = Inr t \<and> t \<noteq> ''datetime''" if "dtype s = Object"
    using that empty classify_object_cases [of L df c s]
    by (auto simp: classify_dtype_def dtype_eval)
  then show ?thesis using assms(1) tried by (auto simp: infer_column_type_def)
qed

text \<open>
  The all-null columns \<open>created\<close> and \<open>remark\<close> of the table \<open>fruit\<close>, of \<open>object\<close>
  storage, whose empty sample converts.
\<close>

theorem all_null_columns_witness:
  "to_datetime_raise example_lib Object [] = Inr [] \<and>
   infer_column_type example_lib fruit ''created'' = Inr ''datetime'' \<and>
   (\<exists>t. infer_column_type example_lib fruit ''remark'' = Inr t \<and> t \<noteq> ''datetime'')"
  using all_null_columns [OF getitem_fruit(3), of example_lib]
    all_null_columns [OF getitem_fruit(4), of example_lib]
    names_created names_remark empty_sample_example(2)
  by simp

end
